theory Spec2Isabelle
  imports Main "HOL-Library.AList"
begin

section \<open>Python values, dtypes, domains and errors\<close>

text \<open>
  Scalars and containers that reach the modelled methods as arguments. \<open>PySet\<close> lists
  the elements of a \<^verbatim>\<open>frozenset\<close> in iteration order, \<open>PyList\<close> is a Python list.
  Floating-point scalars are left out.
\<close>

datatype pyval =
    PyNone
  | PyBool bool
  | PyInt int
  | PyStr string
  | PySet "pyval list"
  | PyList "pyval list"

datatype dtype = int64_dtype | categorical_dtype | float64_dtype | bool_dtype

text \<open>
  Domains are compared with \<^verbatim>\<open>is\<close>; a domain object is identified by a number, so that
  identity is equality. \<open>GENERIC\<close> is the sentinel of \<^verbatim>\<open>zipline.pipeline.domain\<close>.
\<close>

datatype Domain = GENERIC | CalendarDomain nat

text \<open>
  The class of a term that no modelled function inspects further.
\<close>

datatype term_class = Filter_class | Classifier_class | Factor_class | Term_class

text \<open>
  Pipeline terms, one constructor per class that \<^verbatim>\<open>pipeline.py\<close> and
  \<^verbatim>\<open>classifier.py\<close> test with \<^verbatim>\<open>isinstance\<close> or build:
  \<^item> \<open>SingleAsset sid\<close>: \<^verbatim>\<open>term._asset.sid\<close>;
  \<^item> \<open>StaticAssets sids\<close>, \<open>StaticSids sids\<close>, \<open>StaticUniverse sids\<close>: \<^verbatim>\<open>term.params["sids"]\<close>
    (zipline sids for the first, real sids for the other two);
  \<^item> \<open>ArrayPredicate op opargs inputs\<close>: \<^verbatim>\<open>term.params['op'].__name__\<close>,
    \<^verbatim>\<open>term.params['opargs']\<close>, \<^verbatim>\<open>term.inputs\<close>;
  \<^item> \<open>NumExprFilter expr bindings\<close>: \<^verbatim>\<open>term._expr\<close> and the dict \<^verbatim>\<open>term.bindings\<close>
    as an association list;
  \<^item> \<open>LatestFilter\<close>, \<open>NullFilter\<close>, \<open>NotNullFilter\<close>, \<open>LatestClassifier\<close>,
    \<open>LatestFactor\<close>: \<^verbatim>\<open>term.inputs\<close>;
  \<^item> \<open>BoundColumn qualname name\<close>: the only terms with a \<^verbatim>\<open>dataset\<close> attribute;
    \<^verbatim>\<open>term.dataset.qualname\<close> and \<^verbatim>\<open>term.name\<close>;
  \<^item> \<open>ClassifierTerm dtype missing_value mask\<close>: any other classifier, with the
    attributes that \<^verbatim>\<open>classifier.py\<close> reads;
  \<^item> \<open>OtherTerm cls ndim name\<close>: any other term, with its class and \<^verbatim>\<open>ndim\<close>.
\<close>

datatype Term =
    SingleAsset int
  | StaticAssets "int list"
  | StaticSids "string list"
  | StaticUniverse "string list"
  | ArrayPredicate string "pyval list" "Term list"
  | NumExprFilter string "(string \<times> Term) list"
  | LatestFilter "Term list"
  | NullFilter "Term list"
  | NotNullFilter "Term list"
  | LatestClassifier "Term list"
  | LatestFactor "Term list"
  | BoundColumn string string
  | ClassifierTerm dtype pyval "Term option"
  | OtherTerm term_class nat string

text \<open>
  Modelled from the spec: the class declarations are in modules that are not part of the
  sources at hand. \<^verbatim>\<open>isinstance(term, Filter)\<close>, \<^verbatim>\<open>isinstance(term, ComputableTerm)\<close> and
  \<^verbatim>\<open>term.ndim\<close>: by the spec every concrete node is a Filter, a Classifier or a Factor,
  which are the computable terms; a column of a dataset is a term that is not
  computable (the error message of \<^verbatim>\<open>add\<close> asks for its \<^verbatim>\<open>.latest\<close>). The named classes
  produce two-dimensional results; any other term states its own \<^verbatim>\<open>ndim\<close>.
\<close>

fun isinstance_Filter :: "Term \<Rightarrow> bool" where
  "isinstance_Filter (SingleAsset _) = True"
| "isinstance_Filter (StaticAssets _) = True"
| "isinstance_Filter (StaticSids _) = True"
| "isinstance_Filter (StaticUniverse _) = True"
| "isinstance_Filter (ArrayPredicate _ _ _) = True"
| "isinstance_Filter (NumExprFilter _ _) = True"
| "isinstance_Filter (LatestFilter _) = True"
| "isinstance_Filter (NullFilter _) = True"
| "isinstance_Filter (NotNullFilter _) = True"
| "isinstance_Filter (OtherTerm cls _ _) = (cls = Filter_class)"
| "isinstance_Filter _ = False"

fun isinstance_ComputableTerm :: "Term \<Rightarrow> bool" where
  "isinstance_ComputableTerm (BoundColumn _ _) = False"
| "isinstance_ComputableTerm (OtherTerm cls _ _) = (cls \<noteq> Term_class)"
| "isinstance_ComputableTerm _ = True"

fun ndim :: "Term \<Rightarrow> nat" where
  "ndim (OtherTerm _ n _) = n"
| "ndim _ = 2"

text \<open>
  Exceptions as values. Each constructor is one \<^verbatim>\<open>raise\<close> site (or one failing
  builtin) with the values its message is formatted from; \<open>exception_class\<close> gives
  the Python class that is raised.
\<close>

datatype error =
    Screen_not_a_Filter Term
  | Invalid_column_term string Term
  | Not_a_pipeline_column Term
  | UnsupportedPipelineOutput string Term
  | Column_already_exists string
  | Missing_key string
  | Index_out_of_range
  | Not_iterable pyval
  | Screen_already_set
  | Conflicting_domains Domain Domain
  | AmbiguousDomain
  | Comparison_against_missing_value pyval
  | InvalidClassifierComparison dtype pyval
  | Missing_value_in_choices pyval "pyval list"
  | Unhashable_choices pyval
  | Non_int_in_choices "pyval list"
  | Non_string_in_choices "pyval list"
  | Unknown_dtype dtype
  | Dtype_restricted string dtype
  | Relabel_dtype dtype
  | Shift_window_length int
  | Relabel_int_unsupported
  | UnsupportedDataType string dtype string

datatype exc_class =
    TypeError | ValueError | KeyError | IndexError | AssertionError
  | NotImplementedError | UnsupportedPipelineOutput_class | AmbiguousDomain_class
  | UnsupportedDataType_class

fun exception_class :: "error \<Rightarrow> exc_class" where
  "exception_class (Screen_not_a_Filter _) = TypeError"
| "exception_class (Invalid_column_term _ _) = TypeError"
| "exception_class (Not_a_pipeline_column _) = TypeError"
| "exception_class (UnsupportedPipelineOutput _ _) = UnsupportedPipelineOutput_class"
| "exception_class (Column_already_exists _) = KeyError"
| "exception_class (Missing_key _) = KeyError"
| "exception_class Index_out_of_range = IndexError"
| "exception_class (Not_iterable _) = TypeError"
| "exception_class Screen_already_set = ValueError"
| "exception_class (Conflicting_domains _ _) = ValueError"
| "exception_class AmbiguousDomain = AmbiguousDomain_class"
| "exception_class (Comparison_against_missing_value _) = ValueError"
| "exception_class (InvalidClassifierComparison _ _) = TypeError"
| "exception_class (Missing_value_in_choices _ _) = ValueError"
| "exception_class (Unhashable_choices _) = TypeError"
| "exception_class (Non_int_in_choices _) = TypeError"
| "exception_class (Non_string_in_choices _) = TypeError"
| "exception_class (Unknown_dtype _) = AssertionError"
| "exception_class (Dtype_restricted _ _) = TypeError"
| "exception_class (Relabel_dtype _) = TypeError"
| "exception_class (Shift_window_length _) = ValueError"
| "exception_class Relabel_int_unsupported = NotImplementedError"
| "exception_class (UnsupportedDataType _ _ _) = UnsupportedDataType_class"

section \<open>pipeline.py: the prescreen conversion\<close>

text \<open>
  The prescreen dict has at most the keys \<^verbatim>\<open>"sids"\<close>, \<^verbatim>\<open>"real_sids"\<close> and \<^verbatim>\<open>"fields"\<close>;
  an absent key is \<open>None\<close>. A field definition is the dict with the keys
  \<^verbatim>\<open>"field"\<close>, \<^verbatim>\<open>"op"\<close>, \<^verbatim>\<open>"negate"\<close> and \<^verbatim>\<open>"values"\<close>.
\<close>

record fielddef =
  field :: string
  op :: string
  negate :: bool
  "values" :: pyval

record prescreen_dict =
  sids :: "int list option"
  real_sids :: "string list option"
  fields' :: "fielddef list option"

definition empty_dict :: prescreen_dict where
  "empty_dict = \<lparr>sids = None, real_sids = None, fields' = None\<rparr>"

text \<open>Truth value of a dict: it has a key.\<close>

definition dict_truthy :: "prescreen_dict \<Rightarrow> bool" where
  "dict_truthy d \<longleftrightarrow> sids d \<noteq> None \<or> real_sids d \<noteq> None \<or> fields' d \<noteq> None"

text \<open>\<^verbatim>\<open>if key not in prescreen: prescreen[key] = []\<close> followed by \<^verbatim>\<open>extend\<close> or \<^verbatim>\<open>append\<close>.\<close>

definition extend_sids :: "prescreen_dict \<Rightarrow> int list \<Rightarrow> prescreen_dict" where
  "extend_sids d xs = d\<lparr>sids := Some ((case sids d of None \<Rightarrow> [] | Some l \<Rightarrow> l) @ xs)\<rparr>"

definition extend_real_sids :: "prescreen_dict \<Rightarrow> string list \<Rightarrow> prescreen_dict" where
  "extend_real_sids d xs =
     d\<lparr>real_sids := Some ((case real_sids d of None \<Rightarrow> [] | Some l \<Rightarrow> l) @ xs)\<rparr>"

definition append_field :: "prescreen_dict \<Rightarrow> fielddef \<Rightarrow> prescreen_dict" where
  "append_field d fd = d\<lparr>fields' := Some ((case fields' d of None \<Rightarrow> [] | Some l \<Rightarrow> l) @ [fd])\<rparr>"

text \<open>\<^verbatim>\<open>list(x)\<close> on a value: a string gives its characters, a scalar is not iterable.\<close>

fun py_list :: "pyval \<Rightarrow> error + pyval list" where
  "py_list (PySet xs) = Inr xs"
| "py_list (PyList xs) = Inr xs"
| "py_list (PyStr s) = Inr (map (\<lambda>c. PyStr [c]) s)"
| "py_list v = Inl (Not_iterable v)"

text \<open>
  \<^verbatim>\<open>hasattr(term, "dataset") and term.dataset.qualname == "SecuritiesMaster"\<close>, giving
  \<^verbatim>\<open>term.name\<close> when it holds.
\<close>

fun SecuritiesMaster_column :: "Term \<Rightarrow> string option" where
  "SecuritiesMaster_column (BoundColumn qualname name) =
     (if qualname = ''SecuritiesMaster'' then Some name else None)"
| "SecuritiesMaster_column _ = None"

text \<open>The \<^verbatim>\<open>if\<close>/\<^verbatim>\<open>elif\<close> chain on \<^verbatim>\<open>term.params['op'].__name__\<close> of an ArrayPredicate.\<close>

definition ArrayPredicate_fielddef :: "string \<Rightarrow> string \<Rightarrow> pyval list \<Rightarrow> error + fielddef option" where
  "ArrayPredicate_fielddef name opname opargs =
     (case opargs of
        [] \<Rightarrow> Inl Index_out_of_range
      | arg # _ \<Rightarrow>
          if opname = ''eq'' then
            Inr (Some \<lparr>field = name, op = ''eq'', negate = False, values = PyList [arg]\<rparr>)
          else if opname = ''isin'' then
            (case py_list arg of
               Inl e \<Rightarrow> Inl e
             | Inr vs \<Rightarrow> Inr (Some \<lparr>field = name, op = ''eq'', negate = False, values = PyList vs\<rparr>))
          else if opname = ''ne'' then
            Inr (Some \<lparr>field = name, op = ''eq'', negate = True, values = PyList [arg]\<rparr>)
          else if opname = ''has_substring'' then
            Inr (Some \<lparr>field = name, op = ''contains'', negate = False, values = arg\<rparr>)
          else if opname = ''startswith'' then
            Inr (Some \<lparr>field = name, op = ''startswith'', negate = False, values = arg\<rparr>)
          else if opname = ''endswith'' then
            Inr (Some \<lparr>field = name, op = ''endswith'', negate = False, values = arg\<rparr>)
          else
            Inr (Some \<lparr>field = name, op = ''match'', negate = False, values = arg\<rparr>))"

text \<open>
  The third block: a NullFilter or NotNullFilter; \<open>notnull\<close> says which.
  \<^verbatim>\<open>term.inputs[0]\<close> and \<^verbatim>\<open>term.inputs[0].inputs[0]\<close> are read without a length check.
\<close>

definition NullFilter_fielddef :: "bool \<Rightarrow> Term list \<Rightarrow> error + fielddef option" where
  "NullFilter_fielddef notnull inputs =
     (case inputs of
        [] \<Rightarrow> Inl Index_out_of_range
      | LatestClassifier [] # _ \<Rightarrow> Inl Index_out_of_range
      | LatestFactor [] # _ \<Rightarrow> Inl Index_out_of_range
      | LatestClassifier (col # _) # _ \<Rightarrow>
          (case SecuritiesMaster_column col of
             Some name \<Rightarrow>
               Inr (Some \<lparr>field = name, op = ''isnull'', negate = notnull, values = PyList [PyBool True]\<rparr>)
           | None \<Rightarrow> Inr None)
      | LatestFactor (col # _) # _ \<Rightarrow>
          (case SecuritiesMaster_column col of
             Some name \<Rightarrow>
               Inr (Some \<lparr>field = name, op = ''isnull'', negate = notnull, values = PyList [PyBool True]\<rparr>)
           | None \<Rightarrow> Inr None)
      | _ \<Rightarrow> Inr None)"

text \<open>
  \<^verbatim>\<open>_term_to_prescreen_fielddef\<close>. Its four blocks start with an \<^verbatim>\<open>isinstance\<close> test on
  four disjoint classes, so the sequence of \<^verbatim>\<open>if\<close>s is a case distinction on the class
  of the term; every block whose remaining conditions fail falls through to
  \<^verbatim>\<open>return None\<close>.
\<close>

definition term_to_prescreen_fielddef :: "Term \<Rightarrow> error + fielddef option" where
  "term_to_prescreen_fielddef term =
     (case term of
        ArrayPredicate opname opargs inputs \<Rightarrow>
          (case inputs of
             [LatestClassifier [col]] \<Rightarrow>
               (case SecuritiesMaster_column col of
                  Some name \<Rightarrow>
                    if opname \<in> set [''eq'', ''isin'', ''ne'', ''has_substring'',
                                      ''startswith'', ''endswith'', ''matches'']
                    then ArrayPredicate_fielddef name opname opargs
                    else Inr None
                | None \<Rightarrow> Inr None)
           | _ \<Rightarrow> Inr None)
      | LatestFilter inputs \<Rightarrow>
          (case inputs of
             [] \<Rightarrow> Inl Index_out_of_range
           | col # _ \<Rightarrow>
               (case SecuritiesMaster_column col of
                  Some name \<Rightarrow>
                    Inr (Some \<lparr>field = name, op = ''eq'', negate = False, values = PyList [PyBool True]\<rparr>)
                | None \<Rightarrow> Inr None))
      | NullFilter inputs \<Rightarrow> NullFilter_fielddef False inputs
      | NotNullFilter inputs \<Rightarrow> NullFilter_fielddef True inputs
      | NumExprFilter expr bindings \<Rightarrow>
          if expr = ''x_0 != x_0'' then
            (case map_of bindings ''x_0'' of
               None \<Rightarrow> Inl (Missing_key ''x_0'')
             | Some (LatestFactor [col]) \<Rightarrow>
                 (case SecuritiesMaster_column col of
                    Some name \<Rightarrow>
                      Inr (Some \<lparr>field = name, op = ''isnull'', negate = False, values = PyList [PyBool True]\<rparr>)
                  | None \<Rightarrow> Inr None)
             | Some _ \<Rightarrow> Inr None)
          else Inr None
      | _ \<Rightarrow> Inr None)"

text \<open>
  \<^verbatim>\<open>_term_to_prescreen_dict(term, prescreen=None, negate=False)\<close>. The dict is updated
  in place in Python and returned; here the updated dict is the result.
\<close>

definition term_to_prescreen_dict ::
  "Term \<Rightarrow> prescreen_dict option \<Rightarrow> bool \<Rightarrow> error + prescreen_dict option" where
  "term_to_prescreen_dict term prescreen0 neg =
     (let prescreen = (case prescreen0 of
                         None \<Rightarrow> empty_dict
                       | Some d \<Rightarrow> if dict_truthy d then d else empty_dict);
          last_block =
            (case term_to_prescreen_fielddef term of
               Inl e \<Rightarrow> Inl e
             | Inr None \<Rightarrow> Inr None
             | Inr (Some fd) \<Rightarrow>
                 Inr (Some (append_field prescreen
                       (if neg then fd\<lparr>negate := \<not> negate fd\<rparr> else fd))))
      in case term of
           SingleAsset sid \<Rightarrow> Inr (Some (extend_sids prescreen [sid]))
         | StaticAssets ss \<Rightarrow> Inr (Some (extend_sids prescreen ss))
         | StaticSids ss \<Rightarrow> Inr (Some (extend_real_sids prescreen ss))
         | StaticUniverse ss \<Rightarrow> Inr (Some (extend_real_sids prescreen ss))
         | NumExprFilter expr bindings \<Rightarrow>
             if expr = ''~x_0'' then
               (case map_of bindings ''x_0'' of
                  None \<Rightarrow> Inl (Missing_key ''x_0'')
                | Some inner \<Rightarrow>
                    (case term_to_prescreen_fielddef inner of
                       Inl e \<Rightarrow> Inl e
                     | Inr (Some fd) \<Rightarrow>
                         (let fd1 = fd\<lparr>negate := \<not> negate fd\<rparr>;
                              fd2 = (if neg then fd1\<lparr>negate := \<not> negate fd1\<rparr> else fd1)
                          in Inr (Some (append_field prescreen fd2)))
                     | Inr None \<Rightarrow> last_block))
             else last_block
         | _ \<Rightarrow> last_block)"

text \<open>
  A term converts when \<^verbatim>\<open>_term_to_prescreen_dict\<close> returns a dict for it.
\<close>

definition converts :: "Term \<Rightarrow> bool" where
  "converts t =
     (case term_to_prescreen_dict t None False of Inr (Some d) \<Rightarrow> True | _ \<Rightarrow> False)"

section \<open>pipeline.py: the Pipeline container\<close>

text \<open>
  The slots \<^verbatim>\<open>_columns\<close>, \<^verbatim>\<open>_prescreen\<close>, \<^verbatim>\<open>_screen\<close> and \<^verbatim>\<open>_domain\<close>. The columns dict is
  an association list in insertion order; \<open>AList.update\<close> is \<^verbatim>\<open>d[k] = v\<close> and
  \<open>AList.delete\<close> removes a key.
\<close>

record Pipeline =
  p_columns :: "(string \<times> Term) list"
  p_prescreen :: "prescreen_dict option"
  p_screen :: "Term option"
  p_domain :: Domain

text \<open>
  A method call on a pipeline either returns a value or raises; in both cases the
  pipeline object lives on, in the state the call left it in.
\<close>

datatype 'a outcome = Returned 'a Pipeline | Raised error Pipeline

fun state_after :: "'a outcome \<Rightarrow> Pipeline" where
  "state_after (Returned _ p) = p"
| "state_after (Raised _ p) = p"

text \<open>\<^verbatim>\<open>s.replace(c, "")\<close> for a one-character \<^verbatim>\<open>c\<close>.\<close>

definition remove_char :: "char \<Rightarrow> string \<Rightarrow> string" where
  "remove_char c s = filter (\<lambda>x. x \<noteq> c) s"

text \<open>
  \<^verbatim>\<open>expr.split(" & ")\<close>: the pieces between the non-overlapping occurrences of the
  separator, found from the left. The head of the result is the piece being read; the
  result is never empty.
\<close>

fun split_AND :: "string \<Rightarrow> string list" where
  "split_AND [] = [[]]"
| "split_AND (c # cs) =
     (if take 3 (c # cs) = '' & '' then [] # split_AND (drop 2 cs)
      else (case split_AND cs of
              piece # pieces \<Rightarrow> (c # piece) # pieces
            | [] \<Rightarrow> [[c]]))"

text \<open>
  The \<^verbatim>\<open>for term in terms: ... else: ...\<close> loop of \<^verbatim>\<open>_maybe_convert_to_prescreen\<close>:
  \<open>Inr None\<close> is the \<^verbatim>\<open>break\<close>, \<open>Inr (Some prescreen)\<close> the \<^verbatim>\<open>else\<close> branch.
\<close>

fun convert_terms ::
  "(string \<times> Term) list \<Rightarrow> string list \<Rightarrow> prescreen_dict \<Rightarrow> error + prescreen_dict option" where
  "convert_terms bindings [] prescreen = Inr (Some prescreen)"
| "convert_terms bindings (term # terms) prescreen =
     (let neg = (CHR ''~'' \<in> set term);
          term' = remove_char CHR ''~'' term
      in case map_of bindings term' of
           None \<Rightarrow> Inl (Missing_key term')
         | Some bound \<Rightarrow>
             (case term_to_prescreen_dict bound (Some prescreen) neg of
                Inl e \<Rightarrow> Inl e
              | Inr None \<Rightarrow> Inr None
              | Inr (Some prescreen') \<Rightarrow>
                  if \<not> dict_truthy prescreen' then Inr None
                  else convert_terms bindings terms prescreen'))"

definition Pipeline_maybe_convert_to_prescreen :: "Pipeline \<Rightarrow> Term \<Rightarrow> unit outcome" where
  "Pipeline_maybe_convert_to_prescreen self screen =
     (case term_to_prescreen_dict screen None False of
        Inl e \<Rightarrow> Raised e self
      | Inr (Some prescreen) \<Rightarrow>
          Returned () (self\<lparr>p_prescreen := Some prescreen, p_screen := None\<rparr>)
      | Inr None \<Rightarrow>
          (case screen of
             NumExprFilter expr bindings \<Rightarrow>
               (let expr' = remove_char CHR '')'' (remove_char CHR ''('' expr);
                    terms = split_AND expr'
                in if set (map (remove_char CHR ''~'') terms) = set (map fst bindings) then
                     (case convert_terms bindings terms empty_dict of
                        Inl e \<Rightarrow> Raised e self
                      | Inr None \<Rightarrow> Returned () self
                      | Inr (Some prescreen) \<Rightarrow>
                          Returned () (self\<lparr>p_prescreen := Some prescreen, p_screen := None\<rparr>))
                   else Returned () self)
           | _ \<Rightarrow> Returned () self))"

text \<open>\<^verbatim>\<open>validate_column\<close>: \<open>None\<close> when it returns.\<close>

definition validate_column :: "string \<Rightarrow> Term \<Rightarrow> error option" where
  "validate_column column_name term =
     (if ndim term = 1 then Some (UnsupportedPipelineOutput column_name term) else None)"

text \<open>The loop over \<^verbatim>\<open>columns.items()\<close> in \<^verbatim>\<open>__init__\<close>.\<close>

fun validate_columns :: "(string \<times> Term) list \<Rightarrow> error option" where
  "validate_columns [] = None"
| "validate_columns ((column_name, term) # rest) =
     (case validate_column column_name term of
        Some e \<Rightarrow> Some e
      | None \<Rightarrow>
          if \<not> isinstance_ComputableTerm term then Some (Invalid_column_term column_name term)
          else validate_columns rest)"

text \<open>
  \<^verbatim>\<open>Pipeline.__init__\<close>. The decorator checks \<^verbatim>\<open>screen=optional(Filter)\<close> before the
  body runs. A constructor that raises leaves no object. The slot \<^verbatim>\<open>_domain\<close> is
  assigned last; until then it holds a placeholder that nothing reads.
\<close>

definition Pipeline_init ::
  "(string \<times> Term) list option \<Rightarrow> Term option \<Rightarrow> Domain \<Rightarrow> error + Pipeline" where
  "Pipeline_init columns0 screen domain =
     (case (case screen of
              Some s \<Rightarrow> if isinstance_Filter s then None else Some (Screen_not_a_Filter s)
            | None \<Rightarrow> None) of
        Some e \<Rightarrow> Inl e
      | None \<Rightarrow>
          (let columns = (case columns0 of None \<Rightarrow> [] | Some cs \<Rightarrow> cs)
           in case validate_columns columns of
                Some e \<Rightarrow> Inl e
              | None \<Rightarrow>
                  (let self = \<lparr>p_columns = columns, p_prescreen = None,
                               p_screen = screen, p_domain = GENERIC\<rparr>
                   in case screen of
                        None \<Rightarrow> Inr (self\<lparr>p_domain := domain\<rparr>)
                      | Some s \<Rightarrow>
                          (case Pipeline_maybe_convert_to_prescreen self s of
                             Raised e _ \<Rightarrow> Inl e
                           | Returned _ self' \<Rightarrow> Inr (self'\<lparr>p_domain := domain\<rparr>)))))"

text \<open>\<^verbatim>\<open>remove\<close>: \<^verbatim>\<open>self.columns.pop(name)\<close>.\<close>

definition Pipeline_remove :: "Pipeline \<Rightarrow> string \<Rightarrow> Term outcome" where
  "Pipeline_remove self name =
     (case map_of (p_columns self) name of
        None \<Rightarrow> Raised (Missing_key name) self
      | Some removed \<Rightarrow>
          Returned removed (self\<lparr>p_columns := AList.delete name (p_columns self)\<rparr>))"

text \<open>\<^verbatim>\<open>add\<close>.\<close>

definition Pipeline_add :: "Pipeline \<Rightarrow> Term \<Rightarrow> string \<Rightarrow> bool \<Rightarrow> unit outcome" where
  "Pipeline_add self term name overwrite =
     (case validate_column name term of
        Some e \<Rightarrow> Raised e self
      | None \<Rightarrow>
          (case (if name \<in> fst ` set (p_columns self) then
                   (if overwrite then
                      (case Pipeline_remove self name of
                         Raised e self' \<Rightarrow> Raised e self'
                       | Returned _ self' \<Rightarrow> Returned () self')
                    else Raised (Column_already_exists name) self)
                 else Returned () self) of
             Raised e self' \<Rightarrow> Raised e self'
           | Returned _ self' \<Rightarrow>
               if \<not> isinstance_ComputableTerm term then
                 Raised (Not_a_pipeline_column term) self'
               else
                 Returned () (self'\<lparr>p_columns := AList.update name term (p_columns self')\<rparr>)))"

text \<open>\<^verbatim>\<open>set_screen\<close>. The decorator checks \<^verbatim>\<open>screen=Filter\<close> first.\<close>

definition Pipeline_set_screen :: "Pipeline \<Rightarrow> Term \<Rightarrow> bool \<Rightarrow> unit outcome" where
  "Pipeline_set_screen self screen overwrite =
     (if \<not> isinstance_Filter screen then Raised (Screen_not_a_Filter screen) self
      else if (p_screen self \<noteq> None \<or> p_prescreen self \<noteq> None) \<and> \<not> overwrite then
        Raised Screen_already_set self
      else
        Pipeline_maybe_convert_to_prescreen
          (self\<lparr>p_screen := Some screen, p_prescreen := None\<rparr>) screen)"

text \<open>\<^verbatim>\<open>_output_terms\<close>: the column terms, then the screen if there is one.\<close>

definition output_terms :: "Pipeline \<Rightarrow> Term list" where
  "output_terms self =
     map snd (p_columns self) @ (case p_screen self of None \<Rightarrow> [] | Some s \<Rightarrow> [s])"

text \<open>
  \<^verbatim>\<open>domain(default)\<close>. \<^verbatim>\<open>infer_domain\<close> belongs to \<^verbatim>\<open>zipline.pipeline.domain\<close>; it is a
  parameter here, and it may raise.
\<close>

definition Pipeline_domain ::
  "(Term list \<Rightarrow> error + Domain) \<Rightarrow> Pipeline \<Rightarrow> Domain \<Rightarrow> error + Domain" where
  "Pipeline_domain infer_domain self default' =
     (case infer_domain (output_terms self) of
        Inl e \<Rightarrow> Inl e
      | Inr inferred \<Rightarrow>
          if inferred = GENERIC \<and> p_domain self = GENERIC then Inr default'
          else if inferred = GENERIC \<and> p_domain self \<noteq> GENERIC then Inr (p_domain self)
          else if inferred \<noteq> GENERIC \<and> p_domain self = GENERIC then Inr inferred
          else if inferred \<noteq> p_domain self then
            Inl (Conflicting_domains inferred (p_domain self))
          else Inr inferred)"

subsection \<open>The states a pipeline can be in\<close>

text \<open>
  A pipeline object comes from a constructor call that returned and is then changed by
  calls of \<^verbatim>\<open>add\<close>, \<^verbatim>\<open>remove\<close> and \<^verbatim>\<open>set_screen\<close>, whether they return or raise.
\<close>

inductive reachable :: "Pipeline \<Rightarrow> bool" where
  init: "Pipeline_init columns0 screen domain = Inr p \<Longrightarrow> reachable p"
| add: "reachable p \<Longrightarrow> reachable (state_after (Pipeline_add p term name overwrite))"
| remove: "reachable p \<Longrightarrow> reachable (state_after (Pipeline_remove p name))"
| set_screen: "reachable p \<Longrightarrow> reachable (state_after (Pipeline_set_screen p screen overwrite))"

definition at_most_one_active :: "Pipeline \<Rightarrow> bool" where
  "at_most_one_active p \<longleftrightarrow> p_screen p = None \<or> p_prescreen p = None"

section \<open>classifier.py: the Classifier methods\<close>

text \<open>
  A classifier as \<^verbatim>\<open>classifier.py\<close> reads it: \<^verbatim>\<open>self.dtype\<close>, \<^verbatim>\<open>self.missing_value\<close> and
  \<^verbatim>\<open>self.mask\<close>. Where \<^verbatim>\<open>self\<close> is passed on as a term (\<^verbatim>\<open>binds=(self,)\<close>,
  \<^verbatim>\<open>term=self\<close>, \<^verbatim>\<open>inputs=[self]\<close>) it is \<open>Classifier_term self\<close>.
\<close>

record Classifier =
  dtype :: dtype
  missing_value :: pyval
  mask :: "Term option"

definition Classifier_term :: "Classifier \<Rightarrow> Term" where
  "Classifier_term self = ClassifierTerm (dtype self) (missing_value self) (mask self)"

text \<open>
  \<^verbatim>\<open>isinstance(v, Number)\<close> with the value as an integer (\<^verbatim>\<open>int(v)\<close>): a \<^verbatim>\<open>bool\<close> is a
  number in Python.
\<close>

fun py_num :: "pyval \<Rightarrow> int option" where
  "py_num (PyBool b) = Some (if b then 1 else 0)"
| "py_num (PyInt i) = Some i"
| "py_num _ = None"

text \<open>Python's \<^verbatim>\<open>==\<close>: numbers by value, lists elementwise, sets by their elements.\<close>

fun py_eq :: "pyval \<Rightarrow> pyval \<Rightarrow> bool" where
  "py_eq (PyList xs) (PyList ys) = list_all2 py_eq xs ys"
| "py_eq (PySet xs) (PySet ys) =
     ((\<forall>x\<in>set xs. \<exists>y\<in>set ys. py_eq x y) \<and> (\<forall>y\<in>set ys. \<exists>x\<in>set xs. py_eq x y))"
| "py_eq a b =
     (case (py_num a, py_num b) of
        (Some m, Some n) \<Rightarrow> m = n
      | (None, None) \<Rightarrow> a = b
      | _ \<Rightarrow> False)"

text \<open>\<^verbatim>\<open>str(n)\<close> for an integer, as \<^verbatim>\<open>"{other}".format(other=int(other))\<close> writes it.\<close>

definition digit_char :: "nat \<Rightarrow> char" where
  "digit_char d = ''0123456789'' ! d"

function show_nat :: "nat \<Rightarrow> string" where
  "show_nat n =
     (if n < 10 then [digit_char n] else show_nat (n div 10) @ [digit_char (n mod 10)])"
  by pat_completeness auto
termination
  by (relation "measure id") auto

declare show_nat.simps [simp del]

definition show_int :: "int \<Rightarrow> string" where
  "show_int i = (if i < 0 then CHR ''-'' # show_nat (nat (- i)) else show_nat (nat i))"

text \<open>
  \<^verbatim>\<open>eq\<close>. \<^verbatim>\<open>NumExprFilter.create(expr, binds=(self,))\<close> binds \<^verbatim>\<open>self\<close> to the name
  \<^verbatim>\<open>x_0\<close> of the expression; \<^verbatim>\<open>operator.eq.__name__\<close> is \<^verbatim>\<open>'eq'\<close>.
\<close>

definition Classifier_eq :: "Classifier \<Rightarrow> pyval \<Rightarrow> error + Term" where
  "Classifier_eq self other =
     (if py_eq other (missing_value self) then Inl (Comparison_against_missing_value other)
      else if (py_num other \<noteq> None) \<noteq> (dtype self = int64_dtype) then
        Inl (InvalidClassifierComparison (dtype self) other)
      else case py_num other of
             Some n \<Rightarrow>
               Inr (NumExprFilter (''x_0 == '' @ show_int n) [(''x_0'', Classifier_term self)])
           | None \<Rightarrow> Inr (ArrayPredicate ''eq'' [other] [Classifier_term self]))"

text \<open>
  \<^verbatim>\<open>frozenset(choices)\<close>: the argument has to be iterable and its elements hashable
  (a list is not); equal elements are kept once.
\<close>

fun hashable :: "pyval \<Rightarrow> bool" where
  "hashable (PyList _) = False"
| "hashable _ = True"

definition py_dedupe :: "pyval list \<Rightarrow> pyval list" where
  "py_dedupe xs = foldl (\<lambda>acc x. if list_ex (py_eq x) acc then acc else acc @ [x]) [] xs"

definition py_frozenset :: "pyval \<Rightarrow> error + pyval list" where
  "py_frozenset choices =
     (case py_list choices of
        Inl e \<Rightarrow> Inl (Unhashable_choices choices)
      | Inr xs \<Rightarrow>
          if list_all hashable xs then Inr (py_dedupe xs)
          else Inl (Unhashable_choices choices))"

text \<open>\<^verbatim>\<open>isinstance(v, int)\<close> and \<^verbatim>\<open>isinstance(v, (bytes, unicode))\<close>.\<close>

fun isinstance_int :: "pyval \<Rightarrow> bool" where
  "isinstance_int (PyInt _) = True"
| "isinstance_int (PyBool _) = True"
| "isinstance_int _ = False"

fun isinstance_str :: "pyval \<Rightarrow> bool" where
  "isinstance_str (PyStr _) = True"
| "isinstance_str _ = False"

text \<open>
  \<^verbatim>\<open>isin\<close>. The op names are \<^verbatim>\<open>vectorized_is_element.__name__\<close> and
  \<^verbatim>\<open>LabelArray.isin.__name__\<close>.
\<close>

definition Classifier_isin :: "Classifier \<Rightarrow> pyval \<Rightarrow> error + Term" where
  "Classifier_isin self choices0 =
     (case py_frozenset choices0 of
        Inl e \<Rightarrow> Inl e
      | Inr choices \<Rightarrow>
          if list_ex (py_eq (missing_value self)) choices then
            Inl (Missing_value_in_choices (missing_value self) choices)
          else if dtype self = int64_dtype then
            (if list_all isinstance_int choices then
               Inr (ArrayPredicate ''vectorized_is_element'' [PySet choices] [Classifier_term self])
             else Inl (Non_int_in_choices choices))
          else if dtype self = categorical_dtype then
            (if list_all isinstance_str choices then
               Inr (ArrayPredicate ''isin'' [PySet choices] [Classifier_term self])
             else Inl (Non_string_in_choices choices))
          else Inl (Unknown_dtype (dtype self)))"

subsection \<open>shift and Shift\<close>

text \<open>
  The node that \<^verbatim>\<open>shift\<close> builds, with the keyword arguments it passes to \<^verbatim>\<open>Shift\<close>.
  Building the node is a plain constructor call in \<^verbatim>\<open>classifier.py\<close>; the window length
  is only looked at by \<^verbatim>\<open>_validate\<close>.
\<close>

record Shift =
  inputs :: "Term list"
  window_length :: int
  mask :: "Term option"
  dtype :: dtype

definition Classifier_shift :: "Classifier \<Rightarrow> int \<Rightarrow> Term option \<Rightarrow> Shift" where
  "Classifier_shift self periods mask0 =
     \<lparr>inputs = [Classifier_term self], window_length = periods + 1, mask = mask0,
      dtype = Classifier.dtype self\<rparr>"

text \<open>
  \<^verbatim>\<open>CustomClassifier._validate\<close>, as a Shift node inherits it: \<^verbatim>\<open>type(self).__name__\<close> is
  \<^verbatim>\<open>'Shift'\<close>. The \<^verbatim>\<open>_validate\<close> of the mixins that it calls first and the dtype sets
  \<^verbatim>\<open>FACTOR_DTYPES\<close> and \<^verbatim>\<open>FILTER_DTYPES\<close> are defined outside \<^verbatim>\<open>classifier.py\<close>; they
  are parameters, \<open>None\<close> when the call returns.
\<close>

definition CustomClassifier_validate ::
  "dtype set \<Rightarrow> dtype set \<Rightarrow> (Shift \<Rightarrow> error option) \<Rightarrow> Shift \<Rightarrow> error option" where
  "CustomClassifier_validate FACTOR_DTYPES FILTER_DTYPES super_validate self =
     (case super_validate self of
        Some (UnsupportedDataType typename d hint) \<Rightarrow>
          if dtype self \<in> FACTOR_DTYPES then
            Some (UnsupportedDataType ''Shift'' (dtype self)
                    ''Did you mean to create a CustomFactor?'')
          else if dtype self \<in> FILTER_DTYPES then
            Some (UnsupportedDataType ''Shift'' (dtype self)
                    ''Did you mean to create a CustomFilter?'')
          else Some (UnsupportedDataType typename d hint)
      | other \<Rightarrow> other)"

text \<open>\<^verbatim>\<open>Shift._validate\<close>: the inherited validation, then the window length.\<close>

definition Shift_validate ::
  "dtype set \<Rightarrow> dtype set \<Rightarrow> (Shift \<Rightarrow> error option) \<Rightarrow> Shift \<Rightarrow> error option" where
  "Shift_validate FACTOR_DTYPES FILTER_DTYPES super_validate self =
     (case CustomClassifier_validate FACTOR_DTYPES FILTER_DTYPES super_validate self of
        Some e \<Rightarrow> Some e
      | None \<Rightarrow>
          if window_length self < 2 then Some (Shift_window_length (window_length self))
          else None)"

subsection \<open>relabel and Relabel\<close>

text \<open>
  Modelled from the spec: \<^verbatim>\<open>restrict_to_dtype\<close> of \<^verbatim>\<open>zipline.pipeline.api_utils\<close> is
  not part of the sources at hand. By the spec a string-only operation called on a
  term of another dtype "fails with a dtype-mismatch error naming the offending
  method and received dtype", a type mismatch; the message template is the one
  \<^verbatim>\<open>classifier.py\<close> passes.
\<close>

definition string_classifiers_only :: "string \<Rightarrow> Classifier \<Rightarrow> error option" where
  "string_classifiers_only method_name self =
     (if Classifier.dtype self \<noteq> categorical_dtype
      then Some (Dtype_restricted method_name (Classifier.dtype self)) else None)"

text \<open>The node that \<^verbatim>\<open>Relabel.__new__\<close> builds.\<close>

record Relabel =
  inputs :: "Term list"
  dtype :: dtype
  mask :: "Term option"
  relabeler :: "string \<Rightarrow> string"

definition Relabel_new :: "Classifier \<Rightarrow> (string \<Rightarrow> string) \<Rightarrow> error + Relabel" where
  "Relabel_new term relabeler0 =
     (if Classifier.dtype term \<noteq> categorical_dtype then
        Inl (Relabel_dtype (Classifier.dtype term))
      else Inr \<lparr>inputs = [Classifier_term term], dtype = Classifier.dtype term,
                mask = Classifier.mask term, relabeler = relabeler0\<rparr>)"

text \<open>\<^verbatim>\<open>relabel\<close>, under its decorator \<^verbatim>\<open>@string_classifiers_only\<close>.\<close>

definition Classifier_relabel :: "Classifier \<Rightarrow> (string \<Rightarrow> string) \<Rightarrow> error + Relabel" where
  "Classifier_relabel self relabeler0 =
     (case string_classifiers_only ''relabel'' self of
        Some e \<Rightarrow> Inl e
      | None \<Rightarrow> Relabel_new self relabeler0)"

text \<open>
  Modelled from the spec: \<^verbatim>\<open>LabelArray\<close> of \<^verbatim>\<open>zipline.lib.labelarray\<close> is not part of
  the sources at hand. By the spec it pairs a grid of codes with a table of distinct
  category strings and one reserved code for "missing", which is never an index into
  the table: a cell is \<open>None\<close> (missing) or \<open>Some i\<close>, the \<open>i\<close>-th category. The grid is
  kept as the list of its cells. \<^verbatim>\<open>map\<close> "applies \<^verbatim>\<open>fn\<close> exactly once per distinct
  category value (not per cell) and rewrites the category table, leaving missing cells
  unchanged"; the second component lists the arguments of the calls it makes.
\<close>

record LabelArray =
  categories :: "string list"
  codes :: "nat option list"

definition LabelArray_map :: "(string \<Rightarrow> string) \<Rightarrow> LabelArray \<Rightarrow> LabelArray \<times> string list" where
  "LabelArray_map f la = (la\<lparr>categories := map f (categories la)\<rparr>, categories la)"

text \<open>The label of cell \<open>i\<close>, \<open>None\<close> for a missing cell.\<close>

definition label_at :: "LabelArray \<Rightarrow> nat \<Rightarrow> string option" where
  "label_at la i = map_option (\<lambda>k. categories la ! k) (codes la ! i)"

text \<open>
  The invariant of the container: the categories are distinct and every code that is
  not the missing code is an index into the category table.
\<close>

definition LabelArray_ok :: "LabelArray \<Rightarrow> bool" where
  "LabelArray_ok la \<longleftrightarrow>
     distinct (categories la) \<and>
     list_all (\<lambda>c. case c of None \<Rightarrow> True | Some k \<Rightarrow> k < length (categories la)) (codes la)"

text \<open>
  \<^verbatim>\<open>Relabel._compute\<close>: \<^verbatim>\<open>arrays[0]\<close> is a LabelArray or a plain integer array; the
  mask has the shape of the data. \<^verbatim>\<open>result[~mask] = data.missing_value\<close> makes the
  cells outside the mask missing. The calls of the relabeler are returned with the
  result.
\<close>

datatype array = Label_array LabelArray | Int_array "int list"

definition Relabel_compute ::
  "Relabel \<Rightarrow> array list \<Rightarrow> bool list \<Rightarrow> error + (LabelArray \<times> string list)" where
  "Relabel_compute self arrays mask0 =
     (case arrays of
        [] \<Rightarrow> Inl Index_out_of_range
      | Label_array data # _ \<Rightarrow>
          (let (result, calls) = LabelArray_map (relabeler self) data
           in if length mask0 \<noteq> length (codes result) then Inl Index_out_of_range
              else Inr (result\<lparr>codes := map2 (\<lambda>m c. if m then c else None) mask0 (codes result)\<rparr>,
                        calls))
      | Int_array _ # _ \<Rightarrow> Inl Relabel_int_unsupported)"

section \<open>What filters and prescreens select\<close>

text \<open>
  The engine that computes filters and the loader that applies a prescreen are outside
  \<^verbatim>\<open>pipeline.py\<close> and \<^verbatim>\<open>classifier.py\<close>. This section states what the terms and dicts
  built by the two files mean, after the spec and the docstrings of the two files, one
  row (an asset on a date) at a time.
\<close>

subsection \<open>Expressions of a NumExprFilter\<close>

text \<open>
  Modelled from the spec: the expression evaluator is not part of the sources at hand.
  By the spec a NumExprFilter is "a scalar arithmetic-expression evaluator bound to the
  term". The expressions that the two files write or recognise are built from the
  names \<^verbatim>\<open>x_0\<close>, \<^verbatim>\<open>x_1\<close>, ..., integer literals, \<^verbatim>\<open>~\<close>, \<^verbatim>\<open>&\<close>, \<^verbatim>\<open>|\<close>, \<^verbatim>\<open>==\<close>, \<^verbatim>\<open>!=\<close>,
  unary minus and parentheses, read with Python's precedences: \<^verbatim>\<open>~\<close> and unary minus
  bind tightest, then \<^verbatim>\<open>&\<close>, then \<^verbatim>\<open>|\<close>, then the comparisons. First the digits.
\<close>

definition is_digit :: "char \<Rightarrow> bool" where
  "is_digit c \<longleftrightarrow> c \<in> set ''0123456789''"

definition digit_value :: "char \<Rightarrow> nat" where
  "digit_value c = length (takeWhile (\<lambda>d. d \<noteq> c) ''0123456789'')"

definition nat_of_digits :: "string \<Rightarrow> nat" where
  "nat_of_digits ds = foldl (\<lambda>acc c. 10 * acc + digit_value c) 0 ds"

text \<open>
  Modelled from the spec: the tokens of an expression; \<open>None\<close> for a string with any
  other character in it.
\<close>

datatype token =
  T_var string | T_int nat | T_not | T_and | T_or | T_eq | T_ne | T_minus | T_lpar | T_rpar

function lex :: "string \<Rightarrow> token list option" where
  "lex [] = Some []"
| "lex (c # cs) =
     (if c = CHR '' '' then lex cs
      else if c = CHR ''('' then map_option ((#) T_lpar) (lex cs)
      else if c = CHR '')'' then map_option ((#) T_rpar) (lex cs)
      else if c = CHR ''~'' then map_option ((#) T_not) (lex cs)
      else if c = CHR ''&'' then map_option ((#) T_and) (lex cs)
      else if c = CHR ''|'' then map_option ((#) T_or) (lex cs)
      else if c = CHR ''-'' then map_option ((#) T_minus) (lex cs)
      else if c = CHR ''='' then
        (case cs of CHR ''='' # cs' \<Rightarrow> map_option ((#) T_eq) (lex cs') | _ \<Rightarrow> None)
      else if c = CHR ''!'' then
        (case cs of CHR ''='' # cs' \<Rightarrow> map_option ((#) T_ne) (lex cs') | _ \<Rightarrow> None)
      else if is_digit c then
        map_option ((#) (T_int (nat_of_digits (c # takeWhile is_digit cs))))
          (lex (dropWhile is_digit cs))
      else if c = CHR ''x'' then
        (case cs of
           CHR ''_'' # cs' \<Rightarrow>
             if takeWhile is_digit cs' = [] then None
             else map_option ((#) (T_var (''x_'' @ takeWhile is_digit cs')))
                    (lex (dropWhile is_digit cs'))
         | _ \<Rightarrow> None)
      else None)"
  by pat_completeness auto
termination
proof (relation "measure length")
  show "wf (measure length)" by simp
qed (auto simp: less_Suc_eq_le intro: le_trans [OF length_dropWhile_le])




text \<open>
  Modelled from the spec: the syntax tree of an expression and its parser, with one
  case per precedence level. The fuel bounds the depth of the calls; \<open>parse_expr\<close> allows
  five levels for each token and five more.
\<close>

datatype nexpr =
    N_var string | N_int int | N_not nexpr | N_neg nexpr
  | N_and nexpr nexpr | N_or nexpr nexpr | N_eq nexpr nexpr | N_ne nexpr nexpr

datatype level = Comparison | Disjunction | Conjunction | Unary | Atom

fun parse :: "nat \<Rightarrow> level \<Rightarrow> token list \<Rightarrow> (nexpr \<times> token list) option" where
  "parse 0 lv ts = None"
| "parse (Suc fuel) Comparison ts =
     (case parse fuel Disjunction ts of
        Some (l, T_eq # ts') \<Rightarrow>
          (case parse fuel Disjunction ts' of
             Some (r, ts'') \<Rightarrow> Some (N_eq l r, ts'')
           | None \<Rightarrow> None)
      | Some (l, T_ne # ts') \<Rightarrow>
          (case parse fuel Disjunction ts' of
             Some (r, ts'') \<Rightarrow> Some (N_ne l r, ts'')
           | None \<Rightarrow> None)
      | other \<Rightarrow> other)"
| "parse (Suc fuel) Disjunction ts =
     (case parse fuel Conjunction ts of
        Some (l, T_or # ts') \<Rightarrow>
          (case parse fuel Disjunction ts' of
             Some (r, ts'') \<Rightarrow> Some (N_or l r, ts'')
           | None \<Rightarrow> None)
      | other \<Rightarrow> other)"
| "parse (Suc fuel) Conjunction ts =
     (case parse fuel Unary ts of
        Some (l, T_and # ts') \<Rightarrow>
          (case parse fuel Conjunction ts' of
             Some (r, ts'') \<Rightarrow> Some (N_and l r, ts'')
           | None \<Rightarrow> None)
      | other \<Rightarrow> other)"
| "parse (Suc fuel) Unary ts =
     (case ts of
        T_not # ts' \<Rightarrow>
          (case parse fuel Unary ts' of
             Some (e, ts'') \<Rightarrow> Some (N_not e, ts'')
           | None \<Rightarrow> None)
      | T_minus # ts' \<Rightarrow>
          (case parse fuel Unary ts' of
             Some (e, ts'') \<Rightarrow> Some (N_neg e, ts'')
           | None \<Rightarrow> None)
      | _ \<Rightarrow> parse fuel Atom ts)"
| "parse (Suc fuel) Atom ts =
     (case ts of
        T_var x # ts' \<Rightarrow> Some (N_var x, ts')
      | T_int n # ts' \<Rightarrow> Some (N_int (int n), ts')
      | T_lpar # ts' \<Rightarrow>
          (case parse fuel Comparison ts' of
             Some (e, T_rpar # ts'') \<Rightarrow> Some (e, ts'')
           | _ \<Rightarrow> None)
      | _ \<Rightarrow> None)"

definition parse_expr :: "string \<Rightarrow> nexpr option" where
  "parse_expr s =
     (case lex s of
        None \<Rightarrow> None
      | Some ts \<Rightarrow>
          (case parse (5 * length ts + 5) Comparison ts of
             Some (e, []) \<Rightarrow> Some e
           | _ \<Rightarrow> None))"


text \<open>
  Modelled from the spec: the value of an expression, given the values of its names.
  Operands are booleans, integers or \<open>PyNone\<close>, which stands for the null of a column
  (NaN for a float column: it differs from every value, itself included); strings are
  no operands. \<open>None\<close> is an expression that cannot be evaluated.
\<close>

fun numexpr_operand :: "pyval \<Rightarrow> bool" where
  "numexpr_operand PyNone = True"
| "numexpr_operand (PyBool _) = True"
| "numexpr_operand (PyInt _) = True"
| "numexpr_operand _ = False"

fun eval_nexpr :: "(string \<Rightarrow> pyval option) \<Rightarrow> nexpr \<Rightarrow> pyval option" where
  "eval_nexpr env (N_var x) =
     (case env x of Some v \<Rightarrow> if numexpr_operand v then Some v else None | None \<Rightarrow> None)"
| "eval_nexpr env (N_int n) = Some (PyInt n)"
| "eval_nexpr env (N_neg e) =
     (case eval_nexpr env e of Some (PyInt n) \<Rightarrow> Some (PyInt (- n)) | _ \<Rightarrow> None)"
| "eval_nexpr env (N_not e) =
     (case eval_nexpr env e of Some (PyBool b) \<Rightarrow> Some (PyBool (\<not> b)) | _ \<Rightarrow> None)"
| "eval_nexpr env (N_and a b) =
     (case (eval_nexpr env a, eval_nexpr env b) of
        (Some (PyBool x), Some (PyBool y)) \<Rightarrow> Some (PyBool (x \<and> y))
      | _ \<Rightarrow> None)"
| "eval_nexpr env (N_or a b) =
     (case (eval_nexpr env a, eval_nexpr env b) of
        (Some (PyBool x), Some (PyBool y)) \<Rightarrow> Some (PyBool (x \<or> y))
      | _ \<Rightarrow> None)"
| "eval_nexpr env (N_eq a b) =
     (case (eval_nexpr env a, eval_nexpr env b) of
        (Some u, Some v) \<Rightarrow> Some (PyBool (u \<noteq> PyNone \<and> v \<noteq> PyNone \<and> py_eq u v))
      | _ \<Rightarrow> None)"
| "eval_nexpr env (N_ne a b) =
     (case (eval_nexpr env a, eval_nexpr env b) of
        (Some u, Some v) \<Rightarrow> Some (PyBool (u = PyNone \<or> v = PyNone \<or> \<not> py_eq u v))
      | _ \<Rightarrow> None)"

subsection \<open>Terms\<close>

text \<open>
  Modelled from the spec: what is known of one row. Its asset has a zipline sid, a real
  sid and one value for every field of the securities master (the reference dataset,
  which does not change over time; \<open>PyNone\<close> is a null). \<open>r_computed\<close> is the value that
  the engine computes on this row for a term whose computation is not described.
\<close>

record row =
  r_sid :: int
  r_real_sid :: string
  r_field :: "string \<Rightarrow> pyval"
  r_computed :: "Term \<Rightarrow> pyval option"

text \<open>
  Modelled from the spec: the missing value of the term an ArrayPredicate or a null
  check looks at; a column of the securities master is missing where it is null.
\<close>

fun missing_of :: "Term \<Rightarrow> pyval" where
  "missing_of (ClassifierTerm d mv m) = mv"
| "missing_of _ = PyNone"

text \<open>
  Modelled from the spec: the elementwise predicates that \<^verbatim>\<open>eq\<close>, \<^verbatim>\<open>__ne__\<close> and \<^verbatim>\<open>isin\<close>
  put into an ArrayPredicate, on the value \<open>v\<close> of its input. By the spec "no
  vectorized predicate ever matches the missing code", and \<^verbatim>\<open>ne\<close> "excludes missing
  entries from matching"; \<^verbatim>\<open>vectorized_is_element\<close> is plain membership. The string
  predicates are given no value here.
\<close>

definition apply_predicate :: "string \<Rightarrow> pyval list \<Rightarrow> pyval \<Rightarrow> pyval \<Rightarrow> pyval option" where
  "apply_predicate opname opargs missing v =
     (if opname = ''eq'' then
        (case opargs of [a] \<Rightarrow> Some (PyBool (\<not> py_eq v missing \<and> py_eq v a)) | _ \<Rightarrow> None)
      else if opname = ''ne'' then
        (case opargs of [a] \<Rightarrow> Some (PyBool (\<not> py_eq v missing \<and> \<not> py_eq v a)) | _ \<Rightarrow> None)
      else if opname = ''isin'' then
        (case opargs of
           [PySet choices] \<Rightarrow> Some (PyBool (\<not> py_eq v missing \<and> list_ex (py_eq v) choices))
         | _ \<Rightarrow> None)
      else if opname = ''vectorized_is_element'' then
        (case opargs of
           [PySet choices] \<Rightarrow> Some (PyBool (list_ex (py_eq v) choices))
         | _ \<Rightarrow> None)
      else None)"

text \<open>
  Modelled from the spec: the latest value of a column; for a column of the securities
  master it is the field of the asset.
\<close>

definition latest_value :: "row \<Rightarrow> Term \<Rightarrow> Term list \<Rightarrow> pyval option" where
  "latest_value r t ins =
     (case ins of
        [col] \<Rightarrow>
          (case SecuritiesMaster_column col of
             Some name \<Rightarrow> Some (r_field r name)
           | None \<Rightarrow> r_computed r t)
      | _ \<Rightarrow> None)"

text \<open>
  Modelled from the spec: the value of a term on a row. A filter has a boolean value,
  and a row passes a screen when the screen's value is \<open>PyBool True\<close>: by the
  docstring of \<^verbatim>\<open>screen\<close>, rows for which the filter computed False are dropped.
\<close>

lemma map_of_size:
  "map_of bs x = Some t \<Longrightarrow> size t < Suc (size_list (size_prod f size) bs)"
  by (induction bs) (auto split: if_splits)

function term_value :: "row \<Rightarrow> Term \<Rightarrow> pyval option" where
  "term_value r (SingleAsset sid) = Some (PyBool (r_sid r = sid))"
| "term_value r (StaticAssets ss) = Some (PyBool (r_sid r \<in> set ss))"
| "term_value r (StaticSids ss) = Some (PyBool (r_real_sid r \<in> set ss))"
| "term_value r (StaticUniverse ss) = Some (PyBool (r_real_sid r \<in> set ss))"
| "term_value r (LatestFilter ins) = latest_value r (LatestFilter ins) ins"
| "term_value r (LatestClassifier ins) = latest_value r (LatestClassifier ins) ins"
| "term_value r (LatestFactor ins) = latest_value r (LatestFactor ins) ins"
| "term_value r (NullFilter ins) =
     (case ins of
        [t] \<Rightarrow> map_option (\<lambda>v. PyBool (py_eq v (missing_of t))) (term_value r t)
      | _ \<Rightarrow> None)"
| "term_value r (NotNullFilter ins) =
     (case ins of
        [t] \<Rightarrow> map_option (\<lambda>v. PyBool (\<not> py_eq v (missing_of t))) (term_value r t)
      | _ \<Rightarrow> None)"
| "term_value r (ArrayPredicate opname opargs ins) =
     (case ins of
        [t] \<Rightarrow>
          (case term_value r t of
             Some v \<Rightarrow> apply_predicate opname opargs (missing_of t) v
           | None \<Rightarrow> None)
      | _ \<Rightarrow> None)"
| "term_value r (NumExprFilter expr bindings) =
     (case parse_expr expr of
        None \<Rightarrow> None
      | Some e \<Rightarrow>
          eval_nexpr
            (\<lambda>x. case map_of bindings x of None \<Rightarrow> None | Some t \<Rightarrow> term_value r t) e)"
| "term_value r (BoundColumn q n) = r_computed r (BoundColumn q n)"
| "term_value r (ClassifierTerm d mv m) = r_computed r (ClassifierTerm d mv m)"
| "term_value r (OtherTerm c n name) = r_computed r (OtherTerm c n name)"
  by pat_completeness auto
termination
proof (relation "measure (\<lambda>(r, t). size t)")
  show "wf (measure (\<lambda>(r, t). size t))" by simp
qed (auto simp: map_of_size)

text \<open>
  Modelled from the spec: a value a classifier of the given dtype has in a cell, an
  integer for the integer-coded dtype, a string or None for the categorical one.
\<close>

fun cell_of_dtype :: "dtype \<Rightarrow> pyval \<Rightarrow> bool" where
  "cell_of_dtype int64_dtype (PyInt k) = True"
| "cell_of_dtype categorical_dtype (PyStr s) = True"
| "cell_of_dtype categorical_dtype PyNone = True"
| "cell_of_dtype _ _ = False"

subsection \<open>Prescreens\<close>

text \<open>
  Modelled from the spec: the asset-level test of a prescreen dict, after the docstring
  of \<^verbatim>\<open>_maybe_convert_to_prescreen\<close>: \<^verbatim>\<open>sids\<close> and \<^verbatim>\<open>real_sids\<close> list the sids to
  include; a field definition names a field, an op, "whether to negate the filter" and
  the "values to include or exclude". The ops \<^verbatim>\<open>eq\<close> and \<^verbatim>\<open>isnull\<close> are given a
  meaning, the string ops none.
\<close>

definition field_test :: "string \<Rightarrow> pyval \<Rightarrow> pyval \<Rightarrow> bool option" where
  "field_test opname vals v =
     (if opname = ''eq'' then
        (case vals of
           PyList vs \<Rightarrow> Some (v \<noteq> PyNone \<and> list_ex (py_eq v) vs)
         | _ \<Rightarrow> None)
      else if opname = ''isnull'' then Some (v = PyNone)
      else None)"

definition fielddef_accepts :: "row \<Rightarrow> fielddef \<Rightarrow> bool option" where
  "fielddef_accepts r fd =
     map_option (\<lambda>b. b \<noteq> negate fd) (field_test (op fd) (values fd) (r_field r (field fd)))"

definition prescreen_accepts :: "row \<Rightarrow> prescreen_dict \<Rightarrow> bool option" where
  "prescreen_accepts r d =
     (let tests = map (fielddef_accepts r) (case fields' d of None \<Rightarrow> [] | Some fds \<Rightarrow> fds)
      in if None \<in> set tests then None
         else Some ((case sids d of None \<Rightarrow> True | Some ss \<Rightarrow> r_sid r \<in> set ss) \<and>
                    (case real_sids d of None \<Rightarrow> True | Some ss \<Rightarrow> r_real_sid r \<in> set ss) \<and>
                    list_all (\<lambda>t. t = Some True) tests))"

text \<open>Two assets, for the examples below.\<close>

definition asset1 :: row where
  "asset1 = \<lparr>r_sid = 1, r_real_sid = ''FIBBG000B9XRY4'',
             r_field = (\<lambda>f. if f = ''SecType'' then PyStr ''STK''
                             else if f = ''Etf'' then PyBool False else PyNone),
             r_computed = (\<lambda>t. None)\<rparr>"

definition asset2 :: row where
  "asset2 = \<lparr>r_sid = 2, r_real_sid = ''FIBBG000BVPV84'',
             r_field = (\<lambda>f. if f = ''SecType'' then PyStr ''ETF''
                             else if f = ''Etf'' then PyBool True else PyNone),
             r_computed = (\<lambda>t. None)\<rparr>"

section \<open>Properties of the Pipeline container\<close>

subsection \<open>Screen and prescreen\<close>

lemma maybe_convert_cases:
  "state_after (Pipeline_maybe_convert_to_prescreen self screen) = self \<or>
   (\<exists>d. Pipeline_maybe_convert_to_prescreen self screen =
          Returned () (self\<lparr>p_prescreen := Some d, p_screen := None\<rparr>))"
  by (auto simp: Pipeline_maybe_convert_to_prescreen_def Let_def
           split: sum.splits option.splits Term.splits)

lemma maybe_convert_keeps:
  assumes "at_most_one_active self"
  shows "at_most_one_active (state_after (Pipeline_maybe_convert_to_prescreen self screen))"
  using maybe_convert_cases [of self screen] assms
  by (auto simp: at_most_one_active_def)

lemma init_at_most_one:
  assumes "Pipeline_init columns0 screen domain = Inr p"
  shows "at_most_one_active p"
proof (cases screen)
  case None
  with assms show ?thesis
    by (auto simp: Pipeline_init_def at_most_one_active_def Let_def split: option.splits)
next
  case (Some s)
  define self0 where "self0 = \<lparr>p_columns = (case columns0 of None \<Rightarrow> [] | Some cs \<Rightarrow> cs),
      p_prescreen = None, p_screen = Some s, p_domain = GENERIC\<rparr>"
  have a: "at_most_one_active self0"
    by (simp add: self0_def at_most_one_active_def)
  from assms Some obtain u self' where
    r: "Pipeline_maybe_convert_to_prescreen self0 s = Returned u self'"
    and p: "p = self'\<lparr>p_domain := domain\<rparr>"
    by (auto simp: Pipeline_init_def Let_def self0_def
             split: option.splits if_splits outcome.splits)
  from maybe_convert_keeps [OF a, of s] r have "at_most_one_active self'"
    by simp
  with p show ?thesis
    by (simp add: at_most_one_active_def)
qed

lemma add_keeps_slots:
  "p_screen (state_after (Pipeline_add p t name overwrite)) = p_screen p \<and>
   p_prescreen (state_after (Pipeline_add p t name overwrite)) = p_prescreen p"
  by (auto simp: Pipeline_add_def Pipeline_remove_def split: option.splits)

lemma remove_keeps_slots:
  "p_screen (state_after (Pipeline_remove p name)) = p_screen p \<and>
   p_prescreen (state_after (Pipeline_remove p name)) = p_prescreen p"
  by (auto simp: Pipeline_remove_def split: option.splits)

lemma set_screen_at_most_one:
  "at_most_one_active (state_after (Pipeline_set_screen p screen overwrite))
     \<or> state_after (Pipeline_set_screen p screen overwrite) = p"
proof -
  have "at_most_one_active (p\<lparr>p_screen := Some screen, p_prescreen := None\<rparr>)"
    by (simp add: at_most_one_active_def)
  from maybe_convert_keeps [OF this] show ?thesis
    by (simp add: Pipeline_set_screen_def)
qed

lemma reachable_at_most_one: "reachable p \<Longrightarrow> at_most_one_active p"
proof (induction rule: reachable.induct)
  case (init columns0 screen domain p)
  then show ?case by (rule init_at_most_one)
next
  case (add p t n ow)
  then show ?case using add_keeps_slots [of p t n ow]
    by (simp add: at_most_one_active_def)
next
  case (remove p n)
  then show ?case using remove_keeps_slots [of p n]
    by (simp add: at_most_one_active_def)
next
  case (set_screen p s ow)
  then show ?case using set_screen_at_most_one [of p s ow]
    by auto
qed

lemma set_screen_result:
  assumes "Pipeline_set_screen p s ow = Returned () p'"
  shows "(p_screen p' = Some s \<and> p_prescreen p' = None) \<or>
         (p_screen p' = None \<and> p_prescreen p' \<noteq> None)"
    and "p_screen p' = p_screen (state_after (Pipeline_set_screen
           (p\<lparr>p_screen := None, p_prescreen := None\<rparr>) s True))"
    and "p_prescreen p' = p_prescreen (state_after (Pipeline_set_screen
           (p\<lparr>p_screen := None, p_prescreen := None\<rparr>) s True))"
proof -
  let ?q = "p\<lparr>p_screen := Some s, p_prescreen := None\<rparr>"
  from assms have r: "Pipeline_maybe_convert_to_prescreen ?q s = Returned () p'"
    and f: "isinstance_Filter s"
    by (auto simp: Pipeline_set_screen_def split: if_splits)
  from maybe_convert_cases [of ?q s] r
  show "(p_screen p' = Some s \<and> p_prescreen p' = None) \<or>
        (p_screen p' = None \<and> p_prescreen p' \<noteq> None)"
    by auto
  from r f show "p_screen p' = p_screen (state_after (Pipeline_set_screen
        (p\<lparr>p_screen := None, p_prescreen := None\<rparr>) s True))"
    by (simp add: Pipeline_set_screen_def)
  from r f show "p_prescreen p' = p_prescreen (state_after (Pipeline_set_screen
        (p\<lparr>p_screen := None, p_prescreen := None\<rparr>) s True))"
    by (simp add: Pipeline_set_screen_def)
qed

text \<open>
  C3. In every state a pipeline can reach by its constructor and by calls of add, remove
  and set_screen (returning or raising), the screen or the prescreen is None. A
  set_screen call that returns leaves either the new screen with no prescreen, or a
  prescreen with no screen; both slots are what the same call would give on a pipeline
  with neither a screen nor a prescreen, so nothing of a previous prescreen survives.
\<close>

theorem screen_prescreen_exclusive:
  assumes "reachable p"
  shows "(p_screen p = None \<or> p_prescreen p = None) \<and>
         (\<forall>s ow p'. Pipeline_set_screen p s ow = Returned () p' \<longrightarrow>
            ((p_screen p' = Some s \<and> p_prescreen p' = None) \<or>
             (p_screen p' = None \<and> p_prescreen p' \<noteq> None)) \<and>
            p_screen p' = p_screen (state_after (Pipeline_set_screen
                 (p\<lparr>p_screen := None, p_prescreen := None\<rparr>) s True)) \<and>
            p_prescreen p' = p_prescreen (state_after (Pipeline_set_screen
                 (p\<lparr>p_screen := None, p_prescreen := None\<rparr>) s True)))"
proof -
  from assms have "at_most_one_active p"
    by (rule reachable_at_most_one)
  then have "p_screen p = None \<or> p_prescreen p = None"
    by (simp add: at_most_one_active_def)
  then show ?thesis
    using set_screen_result by blast
qed

lemma init_SingleAsset:
  "Pipeline_init None (Some (SingleAsset 7)) GENERIC =
     Inr \<lparr>p_columns = [],
          p_prescreen = Some \<lparr>sids = Some [7], real_sids = None, fields' = None\<rparr>,
          p_screen = None, p_domain = GENERIC\<rparr>"
  by (simp add: Pipeline_init_def Pipeline_maybe_convert_to_prescreen_def
        term_to_prescreen_dict_def empty_dict_def extend_sids_def)

lemma set_screen_opaque_filter:
  "Pipeline_set_screen
     \<lparr>p_columns = [],
      p_prescreen = Some \<lparr>sids = Some [7], real_sids = None, fields' = None\<rparr>,
      p_screen = None, p_domain = GENERIC\<rparr>
     (OtherTerm Filter_class 2 ''volume_filter'') True =
   Returned () \<lparr>p_columns = [], p_prescreen = None,
                p_screen = Some (OtherTerm Filter_class 2 ''volume_filter''),
                p_domain = GENERIC\<rparr>"
  by (simp add: Pipeline_set_screen_def Pipeline_maybe_convert_to_prescreen_def
        term_to_prescreen_dict_def term_to_prescreen_fielddef_def empty_dict_def)

theorem screen_prescreen_exclusive_witness:
  "reachable \<lparr>p_columns = [],
      p_prescreen = Some \<lparr>sids = Some [7], real_sids = None, fields' = None\<rparr>,
      p_screen = None, p_domain = GENERIC\<rparr> \<and>
   p_screen \<lparr>p_columns = [],
      p_prescreen = Some \<lparr>sids = Some [7], real_sids = None, fields' = None\<rparr>,
      p_screen = None, p_domain = GENERIC\<rparr> = None \<and>
   p_prescreen (state_after (Pipeline_set_screen
     \<lparr>p_columns = [],
      p_prescreen = Some \<lparr>sids = Some [7], real_sids = None, fields' = None\<rparr>,
      p_screen = None, p_domain = GENERIC\<rparr>
     (OtherTerm Filter_class 2 ''volume_filter'') True)) = None"
proof -
  have r: "reachable \<lparr>p_columns = [],
      p_prescreen = Some \<lparr>sids = Some [7], real_sids = None, fields' = None\<rparr>,
      p_screen = None, p_domain = GENERIC\<rparr>"
    using init_SingleAsset by (rule reachable.init)
  from screen_prescreen_exclusive [OF r] r set_screen_opaque_filter
  show ?thesis by simp
qed

subsection \<open>The conjunction rule\<close>

text \<open>Whether a term converts depends neither on the dict so far nor on the negate flag.\<close>

lemma extend_truthy [simp]:
  "dict_truthy (extend_sids d xs)" "dict_truthy (extend_real_sids d ys)" "dict_truthy (append_field d fd)"
  by (simp_all add: dict_truthy_def extend_sids_def extend_real_sids_def append_field_def)

lemma dict_result_shape:
  "(\<exists>e. term_to_prescreen_dict t ps neg = Inl e \<and> term_to_prescreen_dict t None False = Inl e) \<or>
   (term_to_prescreen_dict t ps neg = Inr None \<and> term_to_prescreen_dict t None False = Inr None) \<or>
   (\<exists>d d'. term_to_prescreen_dict t ps neg = Inr (Some d) \<and> dict_truthy d \<and>
            term_to_prescreen_dict t None False = Inr (Some d'))"
proof -
  define p where "p = (case ps of None \<Rightarrow> empty_dict | Some d \<Rightarrow> if dict_truthy d then d else empty_dict)"
  show ?thesis
    unfolding term_to_prescreen_dict_def Let_def option.case p_def [symmetric]
    by (cases t) (simp_all split: sum.split option.split)
qed

lemma dict_result_truthy:
  "term_to_prescreen_dict t ps neg = Inr (Some d) \<Longrightarrow> dict_truthy d"
  using dict_result_shape [of t ps neg] by auto

lemma dict_result_independent:
  "(\<exists>d. term_to_prescreen_dict t ps neg = Inr (Some d)) = converts t"
  using dict_result_shape [of t ps neg] by (auto simp: converts_def)

lemma convert_terms_Some_iff:
  "(\<exists>d'. convert_terms bs ts d = Inr (Some d')) \<longleftrightarrow>
   (\<forall>t\<in>set ts. \<exists>b. map_of bs (remove_char CHR ''~'' t) = Some b \<and> converts b)"
proof (induction ts arbitrary: d)
  case Nil
  show ?case by simp
next
  case (Cons t ts)
  show ?case
  proof (cases "map_of bs (remove_char CHR ''~'' t)")
    case None
    then show ?thesis by (simp add: Let_def)
  next
    case (Some b)
    show ?thesis
    proof (cases "converts b")
      case False
      with dict_result_independent [of b "Some d" "CHR ''~'' \<in> set t"]
      have "\<forall>d'. term_to_prescreen_dict b (Some d) (CHR ''~'' \<in> set t) \<noteq> Inr (Some d')"
        by simp
      with Some False show ?thesis
        by (auto simp: Let_def split: sum.splits option.splits)
    next
      case True
      with dict_result_independent [of b "Some d" "CHR ''~'' \<in> set t"]
      obtain d1 where d1: "term_to_prescreen_dict b (Some d) (CHR ''~'' \<in> set t) = Inr (Some d1)"
        by auto
      then have "dict_truthy d1" by (rule dict_result_truthy)
      with d1 Some True Cons.IH [of d1] show ?thesis
        by (simp add: Let_def)
    qed
  qed
qed

lemma convert_terms_not_Some_empty:
  "convert_terms bs ts d = Inr (Some d') \<Longrightarrow> ts \<noteq> [] \<Longrightarrow> dict_truthy d'"
proof (induction ts arbitrary: d)
  case Nil
  then show ?case by simp
next
  case (Cons t ts)
  then show ?case
    by (cases ts) (auto simp: Let_def split: sum.splits option.splits if_splits)
qed

lemma direct_conversion_None:
  assumes "2 \<le> length (split_AND (remove_char CHR '')'' (remove_char CHR ''('' e)))"
  shows "term_to_prescreen_dict (NumExprFilter e bs) None False = Inr None"
proof -
  have "e \<noteq> ''~x_0''" "e \<noteq> ''x_0 != x_0''"
    using assms by (auto simp: remove_char_def)
  then show ?thesis
    by (simp add: term_to_prescreen_dict_def term_to_prescreen_fielddef_def)
qed

lemma split_AND_nonempty: "split_AND s \<noteq> []"
  by (induction s rule: split_AND.induct) (auto split: list.splits)

lemma split_AND_keeps_chars:
  assumes "c \<in> set s" and "c \<noteq> CHR '' ''" and "c \<noteq> CHR ''&''"
  shows "\<exists>piece\<in>set (split_AND s). c \<in> set piece"
  using assms
proof (induction s rule: split_AND.induct)
  case 1
  then show ?case by simp
next
  case (2 x xs)
  show ?case
  proof (cases "take 3 (x # xs) = '' & ''")
    case True
    then obtain r where xs: "xs = CHR ''&'' # CHR '' '' # r" and x: "x = CHR '' ''"
      by (cases xs; cases "tl xs") auto
    with "2.prems" have "c \<in> set (drop 2 xs)" by auto
    with "2.IH"(1) [OF True] "2.prems" True show ?thesis
      by auto
  next
    case False
    obtain piece pieces where sp: "split_AND xs = piece # pieces"
      using split_AND_nonempty [of xs] by (cases "split_AND xs") auto
    from False have eq: "split_AND (x # xs) = (x # piece) # pieces"
      by (subst split_AND.simps) (simp only: if_False sp list.case)
    show ?thesis
    proof (cases "c = x")
      case True
      with eq show ?thesis by simp
    next
      case cx: False
      with "2.prems" have "c \<in> set xs" by simp
      with "2.IH"(2) [OF False] "2.prems" obtain q where "q \<in> set (split_AND xs)" "c \<in> set q"
        by auto
      with eq sp show ?thesis by auto
    qed
  qed
qed

lemma or_expression_shape:
  assumes "CHR ''|'' \<in> set e" and "\<forall>k\<in>set (map fst bs). CHR ''|'' \<notin> set k"
  shows "set (map (remove_char CHR ''~'') (split_AND (remove_char CHR '')'' (remove_char CHR ''('' e))))
           \<noteq> set (map fst bs)"
proof -
  let ?e = "remove_char CHR '')'' (remove_char CHR ''('' e)"
  from assms(1) have "CHR ''|'' \<in> set ?e"
    by (simp add: remove_char_def)
  then obtain piece where p: "piece \<in> set (split_AND ?e)" "CHR ''|'' \<in> set piece"
    using split_AND_keeps_chars [of "CHR ''|''" ?e] by auto
  then have "CHR ''|'' \<in> set (remove_char CHR ''~'' piece)"
    by (simp add: remove_char_def)
  moreover from p have "remove_char CHR ''~'' piece
      \<in> set (map (remove_char CHR ''~'') (split_AND ?e))"
    by simp
  ultimately show ?thesis using assms(2) by metis
qed

lemma or_expression_direct:
  assumes "CHR ''|'' \<in> set e"
  shows "term_to_prescreen_dict (NumExprFilter e bs) None False = Inr None"
proof -
  have "e \<noteq> ''~x_0''" "e \<noteq> ''x_0 != x_0''"
    using assms by auto
  then show ?thesis
    by (simp add: term_to_prescreen_dict_def term_to_prescreen_fielddef_def)
qed

lemma maybe_convert_conjunction:
  assumes "2 \<le> length (split_AND (remove_char CHR '')'' (remove_char CHR ''('' expr)))"
  shows "Pipeline_maybe_convert_to_prescreen self (NumExprFilter expr bindings) =
     (let terms = split_AND (remove_char CHR '')'' (remove_char CHR ''('' expr))
      in if set (map (remove_char CHR ''~'') terms) = set (map fst bindings) then
           (case convert_terms bindings terms empty_dict of
              Inl e \<Rightarrow> Raised e self
            | Inr None \<Rightarrow> Returned () self
            | Inr (Some prescreen) \<Rightarrow>
                Returned () (self\<lparr>p_prescreen := Some prescreen, p_screen := None\<rparr>))
         else Returned () self)"
  using direct_conversion_None [OF assms, of bindings]
  by (simp add: Pipeline_maybe_convert_to_prescreen_def Let_def)

lemma installed_iff:
  assumes "p_prescreen self = None"
    and "2 \<le> length (split_AND (remove_char CHR '')'' (remove_char CHR ''('' expr)))"
  shows "p_prescreen (state_after
            (Pipeline_maybe_convert_to_prescreen self (NumExprFilter expr bindings))) \<noteq> None \<longleftrightarrow>
         set (map (remove_char CHR ''~'')
                (split_AND (remove_char CHR '')'' (remove_char CHR ''('' expr))))
           = set (map fst bindings) \<and>
         (\<forall>t\<in>set (split_AND (remove_char CHR '')'' (remove_char CHR ''('' expr))).
            \<exists>b. map_of bindings (remove_char CHR ''~'' t) = Some b \<and> converts b)"
proof (cases "set (map (remove_char CHR ''~'')
                (split_AND (remove_char CHR '')'' (remove_char CHR ''('' expr))))
           = set (map fst bindings)")
  case False
  with assms show ?thesis
    by (simp add: maybe_convert_conjunction Let_def)
next
  case True
  have "p_prescreen (state_after
            (Pipeline_maybe_convert_to_prescreen self (NumExprFilter expr bindings))) \<noteq> None \<longleftrightarrow>
        (\<exists>d'. convert_terms bindings
           (split_AND (remove_char CHR '')'' (remove_char CHR ''('' expr))) empty_dict = Inr (Some d'))"
    using assms True
    by (auto simp: maybe_convert_conjunction Let_def split: sum.splits option.splits)
  with True show ?thesis
    by (simp add: convert_terms_Some_iff)
qed

text \<open>
  C2. \<^verbatim>\<open>_maybe_convert_to_prescreen\<close> is called with the screen set and no prescreen. For
  a screen whose expression, parentheses removed, splits at \<^verbatim>\<open>" & "\<close> into two or more
  terms: a prescreen is installed exactly when the terms, negation signs removed, are
  the names of the bindings and every bound term converts; this depends only on the set
  of the terms, so not on their order, and the parentheses are gone before the split.
  Installing a prescreen clears the screen. When no prescreen is installed, whether the
  call returned or raised, the pipeline is as before and still holds the original
  screen. An expression with \<^verbatim>\<open>|\<close> in it is never converted.
\<close>

theorem conjunction_all_or_nothing:
  assumes "p_screen self = Some (NumExprFilter expr bindings)" and "p_prescreen self = None"
    and "terms = split_AND (remove_char CHR '')'' (remove_char CHR ''('' expr))"
    and "out = Pipeline_maybe_convert_to_prescreen self (NumExprFilter expr bindings)"
  shows "(2 \<le> length terms \<longrightarrow>
            (p_prescreen (state_after out) \<noteq> None \<longleftrightarrow>
               set (map (remove_char CHR ''~'') terms) = set (map fst bindings) \<and>
               (\<forall>t\<in>set terms. \<exists>b. map_of bindings (remove_char CHR ''~'' t) = Some b \<and> converts b))) \<and>
         (\<forall>expr'. 2 \<le> length terms \<and>
            2 \<le> length (split_AND (remove_char CHR '')'' (remove_char CHR ''('' expr'))) \<and>
            set (split_AND (remove_char CHR '')'' (remove_char CHR ''('' expr'))) = set terms \<longrightarrow>
            (p_prescreen (state_after
               (Pipeline_maybe_convert_to_prescreen self (NumExprFilter expr' bindings))) \<noteq> None
             \<longleftrightarrow> p_prescreen (state_after out) \<noteq> None)) \<and>
         (p_prescreen (state_after out) \<noteq> None \<longrightarrow> p_screen (state_after out) = None) \<and>
         (p_prescreen (state_after out) = None \<longrightarrow>
            state_after out = self \<and>
            p_screen (state_after out) = Some (NumExprFilter expr bindings)) \<and>
         (CHR ''|'' \<in> set expr \<and> (\<forall>k\<in>set (map fst bindings). CHR ''|'' \<notin> set k) \<longrightarrow>
            out = Returned () self)"
proof -
  have cases: "state_after out = self \<or>
      (\<exists>d. out = Returned () (self\<lparr>p_prescreen := Some d, p_screen := None\<rparr>))"
    unfolding assms(4) by (rule maybe_convert_cases)
  have iff: "2 \<le> length terms \<longrightarrow>
            (p_prescreen (state_after out) \<noteq> None \<longleftrightarrow>
               set (map (remove_char CHR ''~'') terms) = set (map fst bindings) \<and>
               (\<forall>t\<in>set terms. \<exists>b. map_of bindings (remove_char CHR ''~'' t) = Some b \<and> converts b))"
    unfolding assms(3,4) using installed_iff [OF assms(2)] by blast
  have order: "p_prescreen (state_after
               (Pipeline_maybe_convert_to_prescreen self (NumExprFilter expr' bindings))) \<noteq> None
             \<longleftrightarrow> p_prescreen (state_after out) \<noteq> None"
    if "2 \<le> length terms"
      and "2 \<le> length (split_AND (remove_char CHR '')'' (remove_char CHR ''('' expr')))"
      and "set (split_AND (remove_char CHR '')'' (remove_char CHR ''('' expr'))) = set terms"
    for expr'
    using that installed_iff [OF assms(2), of expr bindings] installed_iff [OF assms(2), of expr' bindings]
    unfolding assms(3,4) by simp
  have or: "out = Returned () self"
    if "CHR ''|'' \<in> set expr" and "\<forall>k\<in>set (map fst bindings). CHR ''|'' \<notin> set k"
    using or_expression_direct [OF that(1), of bindings] or_expression_shape [OF that]
    unfolding assms(4) by (simp add: Pipeline_maybe_convert_to_prescreen_def Let_def)
  from cases assms(2)
  have inst: "p_prescreen (state_after out) \<noteq> None \<longrightarrow> p_screen (state_after out) = None"
    by auto
  from cases assms(1)
  have kept: "p_prescreen (state_after out) = None \<longrightarrow>
      state_after out = self \<and> p_screen (state_after out) = Some (NumExprFilter expr bindings)"
    by auto
  from iff order inst kept or show ?thesis by blast
qed

lemma conversion_of_two_leaves:
  "Pipeline_maybe_convert_to_prescreen
      \<lparr>p_columns = [], p_prescreen = None,
        p_screen = Some (NumExprFilter ''x_0 & (~x_1)''
          [(''x_0'', ArrayPredicate ''eq'' [PyStr ''STK'']
                      [LatestClassifier [BoundColumn ''SecuritiesMaster'' ''SecType'']]),
           (''x_1'', LatestFilter [BoundColumn ''SecuritiesMaster'' ''Etf''])]),
        p_domain = GENERIC\<rparr>
      (NumExprFilter ''x_0 & (~x_1)''
          [(''x_0'', ArrayPredicate ''eq'' [PyStr ''STK'']
                      [LatestClassifier [BoundColumn ''SecuritiesMaster'' ''SecType'']]),
           (''x_1'', LatestFilter [BoundColumn ''SecuritiesMaster'' ''Etf''])])
   = Returned ()
      \<lparr>p_columns = [],
        p_prescreen = Some \<lparr>sids = None, real_sids = None,
            fields' = Some [\<lparr>field = ''SecType'', op = ''eq'', negate = False,
                              values = PyList [PyStr ''STK'']\<rparr>,
                            \<lparr>field = ''Etf'', op = ''eq'', negate = True,
                              values = PyList [PyBool True]\<rparr>]\<rparr>,
        p_screen = None, p_domain = GENERIC\<rparr>"
  by (simp add: Pipeline_maybe_convert_to_prescreen_def term_to_prescreen_dict_def
        term_to_prescreen_fielddef_def ArrayPredicate_fielddef_def empty_dict_def dict_truthy_def
        append_field_def remove_char_def Let_def)

lemma conversion_with_opaque_filter:
  "Pipeline_maybe_convert_to_prescreen
      \<lparr>p_columns = [], p_prescreen = None,
        p_screen = Some (NumExprFilter ''x_0 & x_1''
          [(''x_0'', LatestFilter [BoundColumn ''SecuritiesMaster'' ''Etf'']),
           (''x_1'', OtherTerm Filter_class 2 ''liquid'')]),
        p_domain = GENERIC\<rparr>
      (NumExprFilter ''x_0 & x_1''
          [(''x_0'', LatestFilter [BoundColumn ''SecuritiesMaster'' ''Etf'']),
           (''x_1'', OtherTerm Filter_class 2 ''liquid'')])
   = Returned ()
      \<lparr>p_columns = [], p_prescreen = None,
        p_screen = Some (NumExprFilter ''x_0 & x_1''
          [(''x_0'', LatestFilter [BoundColumn ''SecuritiesMaster'' ''Etf'']),
           (''x_1'', OtherTerm Filter_class 2 ''liquid'')]),
        p_domain = GENERIC\<rparr>"
  by (simp add: Pipeline_maybe_convert_to_prescreen_def term_to_prescreen_dict_def
        term_to_prescreen_fielddef_def empty_dict_def dict_truthy_def
        append_field_def remove_char_def Let_def)

theorem conjunction_all_or_nothing_witness:
  "p_prescreen (state_after (Pipeline_maybe_convert_to_prescreen
      \<lparr>p_columns = [], p_prescreen = None,
        p_screen = Some (NumExprFilter ''x_0 & (~x_1)''
          [(''x_0'', ArrayPredicate ''eq'' [PyStr ''STK'']
                      [LatestClassifier [BoundColumn ''SecuritiesMaster'' ''SecType'']]),
           (''x_1'', LatestFilter [BoundColumn ''SecuritiesMaster'' ''Etf''])]),
        p_domain = GENERIC\<rparr>
      (NumExprFilter ''x_0 & (~x_1)''
          [(''x_0'', ArrayPredicate ''eq'' [PyStr ''STK'']
                      [LatestClassifier [BoundColumn ''SecuritiesMaster'' ''SecType'']]),
           (''x_1'', LatestFilter [BoundColumn ''SecuritiesMaster'' ''Etf''])])))
   = Some \<lparr>sids = None, real_sids = None,
            fields' = Some [\<lparr>field = ''SecType'', op = ''eq'', negate = False,
                              values = PyList [PyStr ''STK'']\<rparr>,
                            \<lparr>field = ''Etf'', op = ''eq'', negate = True,
                              values = PyList [PyBool True]\<rparr>]\<rparr> \<and>
   state_after (Pipeline_maybe_convert_to_prescreen
      \<lparr>p_columns = [], p_prescreen = None,
        p_screen = Some (NumExprFilter ''x_0 & x_1''
          [(''x_0'', LatestFilter [BoundColumn ''SecuritiesMaster'' ''Etf'']),
           (''x_1'', OtherTerm Filter_class 2 ''liquid'')]),
        p_domain = GENERIC\<rparr>
      (NumExprFilter ''x_0 & x_1''
          [(''x_0'', LatestFilter [BoundColumn ''SecuritiesMaster'' ''Etf'']),
           (''x_1'', OtherTerm Filter_class 2 ''liquid'')]))
   = \<lparr>p_columns = [], p_prescreen = None,
        p_screen = Some (NumExprFilter ''x_0 & x_1''
          [(''x_0'', LatestFilter [BoundColumn ''SecuritiesMaster'' ''Etf'']),
           (''x_1'', OtherTerm Filter_class 2 ''liquid'')]),
        p_domain = GENERIC\<rparr>"
proof -
  note a = conjunction_all_or_nothing [OF _ _ refl refl,
      of "\<lparr>p_columns = [], p_prescreen = None,
        p_screen = Some (NumExprFilter ''x_0 & (~x_1)''
          [(''x_0'', ArrayPredicate ''eq'' [PyStr ''STK'']
                      [LatestClassifier [BoundColumn ''SecuritiesMaster'' ''SecType'']]),
           (''x_1'', LatestFilter [BoundColumn ''SecuritiesMaster'' ''Etf''])]),
        p_domain = GENERIC\<rparr>" "''x_0 & (~x_1)''"
        "[(''x_0'', ArrayPredicate ''eq'' [PyStr ''STK'']
                      [LatestClassifier [BoundColumn ''SecuritiesMaster'' ''SecType'']]),
           (''x_1'', LatestFilter [BoundColumn ''SecuritiesMaster'' ''Etf''])]", simplified]
  note b = conjunction_all_or_nothing [OF _ _ refl refl,
      of "\<lparr>p_columns = [], p_prescreen = None,
        p_screen = Some (NumExprFilter ''x_0 & x_1''
          [(''x_0'', LatestFilter [BoundColumn ''SecuritiesMaster'' ''Etf'']),
           (''x_1'', OtherTerm Filter_class 2 ''liquid'')]),
        p_domain = GENERIC\<rparr>" "''x_0 & x_1''"
        "[(''x_0'', LatestFilter [BoundColumn ''SecuritiesMaster'' ''Etf'']),
           (''x_1'', OtherTerm Filter_class 2 ''liquid'')]", simplified]
  from a b show ?thesis
    unfolding conversion_of_two_leaves conversion_with_opaque_filter by simp
qed

subsection \<open>What the conversion does to the meaning of a screen\<close>

text \<open>
  C1 does not hold of the code. Two screens that the optimizer converts, with what they
  and the installed prescreens select:
  \<^item> \<^verbatim>\<open>~SingleAsset(a)\<close> for the asset with sid 1, the expression \<^verbatim>\<open>~x_0\<close>: the loop
    over the terms removes the \<^verbatim>\<open>~\<close> and passes \<^verbatim>\<open>negate=True\<close>, which the SingleAsset
    branch ignores; the prescreen lists sid 1 as the sid to include. The screen is
    false on asset 1 and true on asset 2, the prescreen accepts asset 1 and rejects
    asset 2.
  \<^item> the negation of a conjunction of two securities-master leaves, the expression
    \<^verbatim>\<open>~(x_0 & x_1)\<close>: with the parentheses removed it is read as \<^verbatim>\<open>~x_0 & x_1\<close>. On an
    asset with SecType STK that is no ETF the screen is true and the prescreen rejects
    the asset.
\<close>

theorem negated_screens_change_meaning:
  "Pipeline_init None (Some (NumExprFilter ''~x_0'' [(''x_0'', SingleAsset 1)])) GENERIC =
     Inr \<lparr>p_columns = [],
          p_prescreen = Some \<lparr>sids = Some [1], real_sids = None, fields' = None\<rparr>,
          p_screen = None, p_domain = GENERIC\<rparr> \<and>
   term_value asset1 (NumExprFilter ''~x_0'' [(''x_0'', SingleAsset 1)]) = Some (PyBool False) \<and>
   prescreen_accepts asset1 \<lparr>sids = Some [1], real_sids = None, fields' = None\<rparr> = Some True \<and>
   term_value asset2 (NumExprFilter ''~x_0'' [(''x_0'', SingleAsset 1)]) = Some (PyBool True) \<and>
   prescreen_accepts asset2 \<lparr>sids = Some [1], real_sids = None, fields' = None\<rparr> = Some False \<and>
   Pipeline_init None
     (Some (NumExprFilter ''~(x_0 & x_1)''
        [(''x_0'', ArrayPredicate ''eq'' [PyStr ''STK'']
                    [LatestClassifier [BoundColumn ''SecuritiesMaster'' ''SecType'']]),
         (''x_1'', LatestFilter [BoundColumn ''SecuritiesMaster'' ''Etf''])])) GENERIC =
     Inr \<lparr>p_columns = [],
          p_prescreen = Some \<lparr>sids = None, real_sids = None,
            fields' = Some [\<lparr>field = ''SecType'', op = ''eq'', negate = True,
                              values = PyList [PyStr ''STK'']\<rparr>,
                            \<lparr>field = ''Etf'', op = ''eq'', negate = False,
                              values = PyList [PyBool True]\<rparr>]\<rparr>,
          p_screen = None, p_domain = GENERIC\<rparr> \<and>
   term_value asset1 (NumExprFilter ''~(x_0 & x_1)''
        [(''x_0'', ArrayPredicate ''eq'' [PyStr ''STK'']
                    [LatestClassifier [BoundColumn ''SecuritiesMaster'' ''SecType'']]),
         (''x_1'', LatestFilter [BoundColumn ''SecuritiesMaster'' ''Etf''])]) = Some (PyBool True) \<and>
   prescreen_accepts asset1 \<lparr>sids = None, real_sids = None,
            fields' = Some [\<lparr>field = ''SecType'', op = ''eq'', negate = True,
                              values = PyList [PyStr ''STK'']\<rparr>,
                            \<lparr>field = ''Etf'', op = ''eq'', negate = False,
                              values = PyList [PyBool True]\<rparr>]\<rparr> = Some False"
  by (simp add: Pipeline_init_def Pipeline_maybe_convert_to_prescreen_def
        term_to_prescreen_dict_def term_to_prescreen_fielddef_def ArrayPredicate_fielddef_def
        empty_dict_def dict_truthy_def extend_sids_def append_field_def remove_char_def Let_def
        parse_expr_def is_digit_def nat_of_digits_def digit_value_def numeral_eq_Suc
        asset1_def asset2_def prescreen_accepts_def fielddef_accepts_def field_test_def
        apply_predicate_def latest_value_def)

subsection \<open>Domain resolution\<close>

text \<open>
  C4. With the domain inferred from the output terms: both generic gives the default;
  exactly one non-generic gives that one; both non-generic and different raises the
  conflict error, a ValueError formatted from both domains; both non-generic and
  identical gives that domain.
\<close>

theorem Pipeline_domain_three_way:
  assumes "infer_domain (output_terms self) = Inr inferred"
  shows "(inferred = GENERIC \<and> p_domain self = GENERIC \<longrightarrow>
            Pipeline_domain infer_domain self d = Inr d) \<and>
         (inferred = GENERIC \<and> p_domain self \<noteq> GENERIC \<longrightarrow>
            Pipeline_domain infer_domain self d = Inr (p_domain self)) \<and>
         (inferred \<noteq> GENERIC \<and> p_domain self = GENERIC \<longrightarrow>
            Pipeline_domain infer_domain self d = Inr inferred) \<and>
         (inferred \<noteq> GENERIC \<and> p_domain self \<noteq> GENERIC \<and> inferred \<noteq> p_domain self \<longrightarrow>
            Pipeline_domain infer_domain self d =
              Inl (Conflicting_domains inferred (p_domain self)) \<and>
            exception_class (Conflicting_domains inferred (p_domain self)) = ValueError) \<and>
         (inferred \<noteq> GENERIC \<and> p_domain self \<noteq> GENERIC \<and> inferred = p_domain self \<longrightarrow>
            Pipeline_domain infer_domain self d = Inr (p_domain self))"
  using assms by (simp add: Pipeline_domain_def)

theorem Pipeline_domain_three_way_witness:
  "Pipeline_domain (\<lambda>ts. Inr GENERIC)
     \<lparr>p_columns = [], p_prescreen = None, p_screen = None, p_domain = GENERIC\<rparr>
     (CalendarDomain 1) = Inr (CalendarDomain 1) \<and>
   Pipeline_domain (\<lambda>ts. Inr GENERIC)
     \<lparr>p_columns = [], p_prescreen = None, p_screen = None, p_domain = CalendarDomain 2\<rparr>
     (CalendarDomain 1) = Inr (CalendarDomain 2) \<and>
   Pipeline_domain (\<lambda>ts. Inr (CalendarDomain 3))
     \<lparr>p_columns = [], p_prescreen = None, p_screen = None, p_domain = GENERIC\<rparr>
     (CalendarDomain 1) = Inr (CalendarDomain 3) \<and>
   Pipeline_domain (\<lambda>ts. Inr (CalendarDomain 3))
     \<lparr>p_columns = [], p_prescreen = None, p_screen = None, p_domain = CalendarDomain 2\<rparr>
     (CalendarDomain 1) = Inl (Conflicting_domains (CalendarDomain 3) (CalendarDomain 2)) \<and>
   Pipeline_domain (\<lambda>ts. Inr (CalendarDomain 2))
     \<lparr>p_columns = [], p_prescreen = None, p_screen = None, p_domain = CalendarDomain 2\<rparr>
     (CalendarDomain 1) = Inr (CalendarDomain 2)"
  using
    Pipeline_domain_three_way [of "\<lambda>ts. Inr GENERIC"
      "\<lparr>p_columns = [], p_prescreen = None, p_screen = None, p_domain = GENERIC\<rparr>"
      GENERIC "CalendarDomain 1"]
    Pipeline_domain_three_way [of "\<lambda>ts. Inr GENERIC"
      "\<lparr>p_columns = [], p_prescreen = None, p_screen = None, p_domain = CalendarDomain 2\<rparr>"
      GENERIC "CalendarDomain 1"]
    Pipeline_domain_three_way [of "\<lambda>ts. Inr (CalendarDomain 3)"
      "\<lparr>p_columns = [], p_prescreen = None, p_screen = None, p_domain = GENERIC\<rparr>"
      "CalendarDomain 3" "CalendarDomain 1"]
    Pipeline_domain_three_way [of "\<lambda>ts. Inr (CalendarDomain 3)"
      "\<lparr>p_columns = [], p_prescreen = None, p_screen = None, p_domain = CalendarDomain 2\<rparr>"
      "CalendarDomain 3" "CalendarDomain 1"]
    Pipeline_domain_three_way [of "\<lambda>ts. Inr (CalendarDomain 2)"
      "\<lparr>p_columns = [], p_prescreen = None, p_screen = None, p_domain = CalendarDomain 2\<rparr>"
      "CalendarDomain 2" "CalendarDomain 1"]
  by simp

subsection \<open>Adding columns\<close>

lemma name_in_columns:
  assumes "name \<in> fst ` set (p_columns self)"
  obtains old where "map_of (p_columns self) name = Some old"
  using assms by (metis domD dom_map_of_conv_image_fst)

lemma add_existing_no_overwrite:
  assumes "name \<in> fst ` set (p_columns self)" and "ndim t \<noteq> 1"
  shows "Pipeline_add self t name False = Raised (Column_already_exists name) self"
  using assms by (simp add: Pipeline_add_def validate_column_def)

lemma add_existing_overwrite:
  assumes "name \<in> fst ` set (p_columns self)" and "ndim t \<noteq> 1"
  shows "Pipeline_add self t name True =
     (if isinstance_ComputableTerm t then
        Returned () (self\<lparr>p_columns :=
          AList.update name t (AList.delete name (p_columns self))\<rparr>)
      else Raised (Not_a_pipeline_column t)
             (self\<lparr>p_columns := AList.delete name (p_columns self)\<rparr>))"
proof -
  from assms(1) obtain old where "map_of (p_columns self) name = Some old"
    by (rule name_in_columns)
  then show ?thesis
    using assms by (simp add: Pipeline_add_def validate_column_def Pipeline_remove_def)
qed

text \<open>
  C5, as the claim states it, fails for a term with \<^verbatim>\<open>ndim == 1\<close>: \<^verbatim>\<open>validate_column\<close>
  runs before the name is looked up, so the call raises UnsupportedPipelineOutput and
  not the duplicate-name KeyError.
\<close>

theorem add_duplicate_name_counterexample:
  "Pipeline_add
     \<lparr>p_columns = [(''close'', OtherTerm Factor_class 2 ''latest_close'')],
      p_prescreen = None, p_screen = None, p_domain = GENERIC\<rparr>
     (OtherTerm Factor_class 1 ''slice'') ''close'' False =
   Raised (UnsupportedPipelineOutput ''close'' (OtherTerm Factor_class 1 ''slice''))
     \<lparr>p_columns = [(''close'', OtherTerm Factor_class 2 ''latest_close'')],
      p_prescreen = None, p_screen = None, p_domain = GENERIC\<rparr> \<and>
   ''close'' \<in> fst ` set [(''close'', OtherTerm Factor_class 2 ''latest_close'')] \<and>
   UnsupportedPipelineOutput ''close'' (OtherTerm Factor_class 1 ''slice'')
     \<noteq> Column_already_exists ''close''"
  by (simp add: Pipeline_add_def validate_column_def)

text \<open>
  C5, amended. For a name already among the columns and a term that passes the
  two-dimensionality check: add without overwrite raises the duplicate-name KeyError
  and leaves the pipeline as it was; add with overwrite and a ComputableTerm returns,
  maps the name to the new term, keeps every other entry of the mapping, and keeps
  screen, prescreen and domain.
\<close>

theorem add_existing_name:
  assumes "name \<in> fst ` set (p_columns self)" and "ndim t \<noteq> 1"
  shows "Pipeline_add self t name False = Raised (Column_already_exists name) self \<and>
         exception_class (Column_already_exists name) = KeyError \<and>
         (isinstance_ComputableTerm t \<longrightarrow>
            (\<exists>self'. Pipeline_add self t name True = Returned () self' \<and>
               map_of (p_columns self') name = Some t \<and>
               (\<forall>n. n \<noteq> name \<longrightarrow> map_of (p_columns self') n = map_of (p_columns self) n) \<and>
               p_screen self' = p_screen self \<and> p_prescreen self' = p_prescreen self \<and>
               p_domain self' = p_domain self))"
  using add_existing_no_overwrite [OF assms] add_existing_overwrite [OF assms]
  by (simp add: update_conv' delete_conv')

theorem add_existing_name_witness:
  "Pipeline_add
     \<lparr>p_columns = [(''close'', OtherTerm Factor_class 2 ''latest_close''),
                   (''sector'', OtherTerm Classifier_class 2 ''sector'')],
      p_prescreen = None, p_screen = None, p_domain = GENERIC\<rparr>
     (OtherTerm Factor_class 2 ''vwap'') ''close'' False =
   Raised (Column_already_exists ''close'')
     \<lparr>p_columns = [(''close'', OtherTerm Factor_class 2 ''latest_close''),
                   (''sector'', OtherTerm Classifier_class 2 ''sector'')],
      p_prescreen = None, p_screen = None, p_domain = GENERIC\<rparr> \<and>
   map_of (p_columns (state_after (Pipeline_add
     \<lparr>p_columns = [(''close'', OtherTerm Factor_class 2 ''latest_close''),
                   (''sector'', OtherTerm Classifier_class 2 ''sector'')],
      p_prescreen = None, p_screen = None, p_domain = GENERIC\<rparr>
     (OtherTerm Factor_class 2 ''vwap'') ''close'' True))) ''close'' =
   Some (OtherTerm Factor_class 2 ''vwap'') \<and>
   map_of (p_columns (state_after (Pipeline_add
     \<lparr>p_columns = [(''close'', OtherTerm Factor_class 2 ''latest_close''),
                   (''sector'', OtherTerm Classifier_class 2 ''sector'')],
      p_prescreen = None, p_screen = None, p_domain = GENERIC\<rparr>
     (OtherTerm Factor_class 2 ''vwap'') ''close'' True))) ''sector'' =
   Some (OtherTerm Classifier_class 2 ''sector'')"
  using add_existing_name [of "''close''"
      "\<lparr>p_columns = [(''close'', OtherTerm Factor_class 2 ''latest_close''),
                   (''sector'', OtherTerm Classifier_class 2 ''sector'')],
      p_prescreen = None, p_screen = None, p_domain = GENERIC\<rparr>"
      "OtherTerm Factor_class 2 ''vwap''"]
  by (simp add: Pipeline_add_def validate_column_def Pipeline_remove_def AList.delete_eq)

text \<open>
  C10. For a name already among the columns and a term that passes the
  two-dimensionality check but is not a ComputableTerm, add with overwrite raises the
  TypeError after the old column has been removed: the pipeline left behind has no
  column of that name and differs from the pipeline before the call.
\<close>

theorem add_overwrite_not_atomic:
  assumes "name \<in> fst ` set (p_columns self)" and "ndim t \<noteq> 1"
    and "\<not> isinstance_ComputableTerm t"
  shows "Pipeline_add self t name True =
           Raised (Not_a_pipeline_column t)
             (self\<lparr>p_columns := AList.delete name (p_columns self)\<rparr>) \<and>
         exception_class (Not_a_pipeline_column t) = TypeError \<and>
         map_of (p_columns (state_after (Pipeline_add self t name True))) name = None \<and>
         name \<notin> fst ` set (p_columns (state_after (Pipeline_add self t name True))) \<and>
         state_after (Pipeline_add self t name True) \<noteq> self"
proof -
  have r: "Pipeline_add self t name True =
      Raised (Not_a_pipeline_column t) (self\<lparr>p_columns := AList.delete name (p_columns self)\<rparr>)"
    using add_existing_overwrite [OF assms(1,2)] assms(3) by simp
  have gone: "name \<notin> fst ` set (AList.delete name (p_columns self))"
    unfolding set_map [symmetric] delete_keys by simp
  then have "map_of (AList.delete name (p_columns self)) name = None"
    by (simp add: delete_conv')
  moreover from gone assms(1) have "self\<lparr>p_columns := AList.delete name (p_columns self)\<rparr> \<noteq> self"
    by (metis Pipeline.select_convs(1) Pipeline.surjective Pipeline.update_convs(1))
  ultimately show ?thesis
    using r gone by simp
qed

theorem add_overwrite_not_atomic_witness:
  "Pipeline_add
     \<lparr>p_columns = [(''close'', OtherTerm Factor_class 2 ''latest_close'')],
      p_prescreen = None, p_screen = None, p_domain = GENERIC\<rparr>
     (BoundColumn ''EquityPricing'' ''close'') ''close'' True =
   Raised (Not_a_pipeline_column (BoundColumn ''EquityPricing'' ''close''))
     \<lparr>p_columns = [], p_prescreen = None, p_screen = None, p_domain = GENERIC\<rparr>"
  using add_overwrite_not_atomic [of "''close''"
      "\<lparr>p_columns = [(''close'', OtherTerm Factor_class 2 ''latest_close'')],
        p_prescreen = None, p_screen = None, p_domain = GENERIC\<rparr>"
      "BoundColumn ''EquityPricing'' ''close''"]
  by (simp add: AList.delete_eq)

section \<open>Properties of the Classifier methods\<close>

subsection \<open>shift\<close>

text \<open>
  C6. shift(periods) builds a node whose window length is periods + 1, so shift(1) gives
  window length 2. Building the node checks nothing; when the validation of the mixins
  passes, \<^verbatim>\<open>Shift._validate\<close> accepts the node exactly when periods is at least 1, and
  for shift(0) it raises the ValueError formatted from window length 1.
\<close>

theorem shift_window_length:
  "window_length (Classifier_shift c periods m) = periods + 1 \<and>
   window_length (Classifier_shift c 1 m) = 2 \<and>
   (super_validate (Classifier_shift c periods m) = None \<longrightarrow>
      Shift_validate factor_dtypes filter_dtypes super_validate (Classifier_shift c periods m) =
        (if periods < 1 then Some (Shift_window_length (periods + 1)) else None)) \<and>
   (super_validate (Classifier_shift c 0 m) = None \<longrightarrow>
      Shift_validate factor_dtypes filter_dtypes super_validate (Classifier_shift c 0 m) =
        Some (Shift_window_length 1) \<and>
      exception_class (Shift_window_length 1) = ValueError)"
  by (simp add: Classifier_shift_def Shift_validate_def CustomClassifier_validate_def)

theorem shift_window_length_witness:
  "window_length (Classifier_shift
      \<lparr>Classifier.dtype = categorical_dtype, missing_value = PyNone, Classifier.mask = None\<rparr>
      1 None) = 2 \<and>
   Shift_validate {int64_dtype, float64_dtype} {bool_dtype} (\<lambda>s. None) (Classifier_shift
      \<lparr>Classifier.dtype = categorical_dtype, missing_value = PyNone, Classifier.mask = None\<rparr>
      0 None)
     = Some (Shift_window_length 1) \<and>
   Shift_validate {int64_dtype, float64_dtype} {bool_dtype} (\<lambda>s. None) (Classifier_shift
      \<lparr>Classifier.dtype = categorical_dtype, missing_value = PyNone, Classifier.mask = None\<rparr>
      3 None)
     = None"
  using
    shift_window_length [of
      "\<lparr>Classifier.dtype = categorical_dtype, missing_value = PyNone, Classifier.mask = None\<rparr>"
      0 None "\<lambda>s. None" "{int64_dtype, float64_dtype}" "{bool_dtype}"]
    shift_window_length [of
      "\<lparr>Classifier.dtype = categorical_dtype, missing_value = PyNone, Classifier.mask = None\<rparr>"
      3 None "\<lambda>s. None" "{int64_dtype, float64_dtype}" "{bool_dtype}"]
  by simp

subsection \<open>eq\<close>

text \<open>
  C7. For a value equal (Python \<^verbatim>\<open>==\<close>) to the missing value of the classifier, eq
  raises the ValueError about comparing against the missing value and returns no
  filter, whatever the dtype.
\<close>

theorem eq_missing_value_fails:
  assumes "py_eq v (missing_value c)"
  shows "Classifier_eq c v = Inl (Comparison_against_missing_value v) \<and>
         exception_class (Comparison_against_missing_value v) = ValueError"
  using assms by (simp add: Classifier_eq_def)

theorem eq_missing_value_fails_witness:
  "Classifier_eq \<lparr>Classifier.dtype = categorical_dtype, missing_value = PyNone, Classifier.mask = None\<rparr> PyNone
     = Inl (Comparison_against_missing_value PyNone) \<and>
   Classifier_eq \<lparr>Classifier.dtype = categorical_dtype, missing_value = PyStr '''', Classifier.mask = None\<rparr> (PyStr '''')
     = Inl (Comparison_against_missing_value (PyStr '''')) \<and>
   Classifier_eq \<lparr>Classifier.dtype = int64_dtype, missing_value = PyInt (- 1), Classifier.mask = None\<rparr> (PyInt (- 1))
     = Inl (Comparison_against_missing_value (PyInt (- 1)))"
  using
    eq_missing_value_fails [of PyNone "\<lparr>Classifier.dtype = categorical_dtype, missing_value = PyNone, Classifier.mask = None\<rparr>"]
    eq_missing_value_fails [of "PyStr ''''" "\<lparr>Classifier.dtype = categorical_dtype, missing_value = PyStr '''', Classifier.mask = None\<rparr>"]
    eq_missing_value_fails [of "PyInt (- 1)" "\<lparr>Classifier.dtype = int64_dtype, missing_value = PyInt (- 1), Classifier.mask = None\<rparr>"]
  by simp

subsection \<open>isin and eq\<close>

lemma is_digit_simps [simp]:
  "is_digit CHR ''0''" "is_digit CHR ''1''" "is_digit CHR ''2''" "is_digit CHR ''3''"
  "is_digit CHR ''4''" "is_digit CHR ''5''" "is_digit CHR ''6''" "is_digit CHR ''7''"
  "is_digit CHR ''8''" "is_digit CHR ''9''"
  "\<not> is_digit CHR '' ''" "\<not> is_digit CHR ''(''" "\<not> is_digit CHR '')''" "\<not> is_digit CHR ''~''"
  "\<not> is_digit CHR ''&''" "\<not> is_digit CHR ''|''" "\<not> is_digit CHR ''-''" "\<not> is_digit CHR ''=''"
  "\<not> is_digit CHR ''!''" "\<not> is_digit CHR ''x''" "\<not> is_digit CHR ''_''"
  by (simp_all add: is_digit_def)

lemma digit_cases:
  assumes "d < 10"
  shows "d = 0 \<or> d = 1 \<or> d = 2 \<or> d = 3 \<or> d = 4 \<or> d = 5 \<or> d = 6 \<or> d = 7 \<or> d = 8 \<or> d = (9::nat)"
  using assms by arith

lemma digit_value_digit_char: "d < 10 \<Longrightarrow> digit_value (digit_char d) = d"
  using digit_cases [of d] by (auto simp: digit_value_def digit_char_def)

lemma is_digit_digit_char: "d < 10 \<Longrightarrow> is_digit (digit_char d)"
  using digit_cases [of d] by (auto simp: digit_char_def)

lemma nat_of_digits_snoc:
  "nat_of_digits (ds @ [c]) = 10 * nat_of_digits ds + digit_value c"
  by (simp add: nat_of_digits_def)

lemma nat_of_digits_show_nat: "nat_of_digits (show_nat n) = n"
proof (induction n rule: show_nat.induct)
  case (1 n)
  show ?case
  proof (cases "n < 10")
    case True
    then show ?thesis
      by (subst show_nat.simps) (simp add: nat_of_digits_def digit_value_digit_char)
  next
    case False
    with "1.IH" have "nat_of_digits (show_nat (n div 10)) = n div 10" by simp
    with False show ?thesis
      by (subst show_nat.simps) (simp add: nat_of_digits_snoc digit_value_digit_char)
  qed
qed

lemma show_nat_digits: "list_all is_digit (show_nat n) \<and> show_nat n \<noteq> []"
proof (induction n rule: show_nat.induct)
  case (1 n)
  show ?case
  proof (cases "n < 10")
    case True
    then show ?thesis
      by (subst (1 2) show_nat.simps) (simp add: is_digit_digit_char)
  next
    case False
    with "1.IH" have "list_all is_digit (show_nat (n div 10))" by simp
    with False show ?thesis
      by (subst (1 2) show_nat.simps) (simp add: is_digit_digit_char)
  qed
qed

lemma lex_digit_run:
  assumes "is_digit c"
  shows "lex (c # cs) =
     map_option ((#) (T_int (nat_of_digits (c # takeWhile is_digit cs))))
       (lex (dropWhile is_digit cs))"
proof -
  from assms have "c \<noteq> CHR '' ''" "c \<noteq> CHR ''(''" "c \<noteq> CHR '')''" "c \<noteq> CHR ''~''"
    "c \<noteq> CHR ''&''" "c \<noteq> CHR ''|''" "c \<noteq> CHR ''-''" "c \<noteq> CHR ''=''" "c \<noteq> CHR ''!''"
    by auto
  with assms show ?thesis
    by (subst lex.simps) (simp only: if_False if_True)
qed

lemma lex_digits:
  assumes "list_all is_digit ds" and "ds \<noteq> []"
  shows "lex ds = Some [T_int (nat_of_digits ds)]"
proof -
  from assms obtain c cs where ds: "ds = c # cs" and c: "is_digit c" and cs: "list_all is_digit cs"
    by (cases ds) auto
  from cs have tw: "takeWhile is_digit cs = cs" and dw: "dropWhile is_digit cs = []"
    by (simp_all add: list_all_iff)
  show ?thesis
    unfolding ds lex_digit_run [OF c] tw dw by simp
qed

lemma lex_show_nat: "lex (show_nat n) = Some [T_int n]"
  using lex_digits [of "show_nat n"] show_nat_digits [of n]
  by (simp add: nat_of_digits_show_nat)

lemma lex_eq_prefix:
  "lex (''x_0 == '' @ rest) = map_option (\<lambda>ts. T_var ''x_0'' # T_eq # ts) (lex rest)"
  by (simp add: option.map_comp comp_def)

lemma lex_show_int:
  "lex (show_int k) = Some (if k < 0 then [T_minus, T_int (nat (- k))] else [T_int (nat k)])"
  by (simp add: show_int_def lex_show_nat)

lemma lex_eq_expr:
  "lex (''x_0 == '' @ show_int k) =
     Some (if k < 0 then [T_var ''x_0'', T_eq, T_minus, T_int (nat (- k))]
           else [T_var ''x_0'', T_eq, T_int (nat k)])"
  unfolding lex_eq_prefix lex_show_int by simp

lemma parse_eq_tokens:
  "parse 20 Comparison [T_var ''x_0'', T_eq, T_int n] = Some (N_eq (N_var ''x_0'') (N_int (int n)), [])"
  "parse 25 Comparison [T_var ''x_0'', T_eq, T_minus, T_int n] =
     Some (N_eq (N_var ''x_0'') (N_neg (N_int (int n))), [])"
  by (simp_all add: numeral_eq_Suc)

lemma parse_eq_expr:
  "parse_expr (''x_0 == '' @ show_int k) =
     Some (N_eq (N_var ''x_0'') (if k < 0 then N_neg (N_int (- k)) else N_int k))"
  unfolding parse_expr_def lex_eq_expr by (simp add: parse_eq_tokens)

lemma eval_eq_expr:
  "eval_nexpr env (N_eq (N_var ''x_0'') (if k < 0 then N_neg (N_int (- k)) else N_int k)) =
     (case env ''x_0'' of
        Some v \<Rightarrow> if numexpr_operand v then Some (PyBool (v \<noteq> PyNone \<and> py_eq v (PyInt k))) else None
      | None \<Rightarrow> None)"
  by (simp split: option.splits)

lemma term_value_eq_expr:
  "term_value r (NumExprFilter (''x_0 == '' @ show_int k) [(''x_0'', t)]) =
     (case term_value r t of
        Some v \<Rightarrow> if numexpr_operand v then Some (PyBool (v \<noteq> PyNone \<and> py_eq v (PyInt k))) else None
      | None \<Rightarrow> None)"
  unfolding term_value.simps parse_eq_expr option.case eval_eq_expr by simp

lemma py_eq_int: "py_eq (PyInt k) a = (py_num a = Some k)"
  by (cases a) auto

lemma py_eq_int_right: "py_eq a (PyInt k) = (py_num a = Some k)"
  by (cases a) auto

lemma py_eq_numbers:
  assumes "py_num a = Some m"
  shows "py_eq a b = (py_num b = Some m)" and "py_eq b a = (py_num b = Some m)"
  using assms by (cases a; cases b; auto)+

lemma py_eq_str: "py_eq (PyStr s) b = (b = PyStr s)" "py_eq b (PyStr s) = (b = PyStr s)"
  by (cases b; auto)+

lemma isinstance_int_num: "isinstance_int a \<Longrightarrow> \<exists>n. py_num a = Some n"
  by (cases a) auto

lemma isinstance_str_ex: "isinstance_str a \<Longrightarrow> \<exists>s. a = PyStr s"
  by (cases a) auto

lemma isin_int:
  assumes "Classifier_isin c choices0 = Inr f" and "Classifier.dtype c = int64_dtype"
  obtains choices where "py_frozenset choices0 = Inr choices"
    and "\<not> list_ex (py_eq (missing_value c)) choices"
    and "list_all isinstance_int choices"
    and "f = ArrayPredicate ''vectorized_is_element'' [PySet choices] [Classifier_term c]"
  using assms by (auto simp: Classifier_isin_def split: sum.splits if_splits)

lemma isin_categorical:
  assumes "Classifier_isin c choices0 = Inr f" and "Classifier.dtype c = categorical_dtype"
  obtains choices where "py_frozenset choices0 = Inr choices"
    and "\<not> list_ex (py_eq (missing_value c)) choices"
    and "list_all isinstance_str choices"
    and "f = ArrayPredicate ''isin'' [PySet choices] [Classifier_term c]"
  using assms by (auto simp: Classifier_isin_def split: sum.splits if_splits)

lemma isin_dtype:
  assumes "Classifier_isin c choices0 = Inr f"
  shows "Classifier.dtype c = int64_dtype \<or> Classifier.dtype c = categorical_dtype"
  using assms by (auto simp: Classifier_isin_def split: sum.splits if_splits)

lemma eq_int_choice:
  assumes "Classifier.dtype c = int64_dtype" and "py_num a = Some n"
    and "\<not> py_eq (missing_value c) a"
  shows "Classifier_eq c a =
           Inr (NumExprFilter (''x_0 == '' @ show_int n) [(''x_0'', Classifier_term c)])"
  using assms py_eq_numbers [OF assms(2), of "missing_value c"]
  by (simp add: Classifier_eq_def)

lemma eq_str_choice:
  assumes "Classifier.dtype c = categorical_dtype" and "\<not> py_eq (missing_value c) (PyStr s)"
  shows "Classifier_eq c (PyStr s) = Inr (ArrayPredicate ''eq'' [PyStr s] [Classifier_term c])"
  using assms by (simp add: Classifier_eq_def py_eq_str del: py_eq.simps)

lemma term_value_classifier:
  "term_value r (Classifier_term c) = r_computed r (Classifier_term c)"
  by (simp add: Classifier_term_def)

lemma missing_of_classifier: "missing_of (Classifier_term c) = missing_value c"
  by (simp add: Classifier_term_def)

lemma isin_matches_int:
  assumes isin: "Classifier_isin c choices0 = Inr f" and dt: "Classifier.dtype c = int64_dtype"
    and v: "r_computed r (Classifier_term c) = Some (PyInt k)"
  shows "\<exists>choices. py_frozenset choices0 = Inr choices \<and>
           (\<forall>a\<in>set choices. \<exists>g. Classifier_eq c a = Inr g) \<and>
           term_value r f = Some (PyBool (\<exists>a\<in>set choices. \<exists>g. Classifier_eq c a = Inr g \<and>
                                            term_value r g = Some (PyBool True))) \<and>
           (py_eq (PyInt k) (missing_value c) \<longrightarrow> term_value r f = Some (PyBool False))"
proof -
  from isin dt obtain choices where fs: "py_frozenset choices0 = Inr choices"
    and nm: "\<not> list_ex (py_eq (missing_value c)) choices"
    and ints: "list_all isinstance_int choices"
    and f: "f = ArrayPredicate ''vectorized_is_element'' [PySet choices] [Classifier_term c]"
    by (rule isin_int)
  have each: "\<exists>n. py_num a = Some n \<and>
      Classifier_eq c a = Inr (NumExprFilter (''x_0 == '' @ show_int n) [(''x_0'', Classifier_term c)]) \<and>
      term_value r (NumExprFilter (''x_0 == '' @ show_int n) [(''x_0'', Classifier_term c)])
        = Some (PyBool (py_eq (PyInt k) a))"
    if a: "a \<in> set choices" for a
  proof -
    from ints a obtain n where n: "py_num a = Some n"
      using isinstance_int_num by (auto simp: list_all_iff)
    from nm a have "\<not> py_eq (missing_value c) a"
      by (auto simp: list_ex_iff)
    with dt n have "Classifier_eq c a =
        Inr (NumExprFilter (''x_0 == '' @ show_int n) [(''x_0'', Classifier_term c)])"
      by (rule eq_int_choice)
    moreover have "term_value r (NumExprFilter (''x_0 == '' @ show_int n) [(''x_0'', Classifier_term c)])
        = Some (PyBool (py_eq (PyInt k) a))"
      using v n
      by (subst term_value_eq_expr) (simp add: term_value_classifier py_eq_int del: py_eq.simps)
    ultimately show ?thesis using n by blast
  qed
  have tv: "term_value r f = Some (PyBool (list_ex (py_eq (PyInt k)) choices))"
    unfolding f using v
    by (simp add: term_value_classifier apply_predicate_def del: py_eq.simps)
  have all: "\<forall>a\<in>set choices. \<exists>g. Classifier_eq c a = Inr g"
    using each by blast
  have disj: "list_ex (py_eq (PyInt k)) choices \<longleftrightarrow>
      (\<exists>a\<in>set choices. \<exists>g. Classifier_eq c a = Inr g \<and> term_value r g = Some (PyBool True))"
    (is "?l \<longleftrightarrow> ?r")
  proof
    assume ?l
    then obtain a where a: "a \<in> set choices" "py_eq (PyInt k) a"
      by (auto simp: list_ex_iff)
    with each [OF a(1)] show ?r
      by (metis (full_types))
  next
    assume ?r
    then obtain a g where a: "a \<in> set choices" "Classifier_eq c a = Inr g"
      "term_value r g = Some (PyBool True)" by blast
    with each [OF a(1)] have "py_eq (PyInt k) a"
      by (auto simp del: term_value.simps py_eq.simps)
    with a(1) show ?l by (auto simp: list_ex_iff)
  qed
  have miss: "term_value r f = Some (PyBool False)" if m: "py_eq (PyInt k) (missing_value c)"
  proof -
    have "\<not> list_ex (py_eq (PyInt k)) choices"
    proof
      assume "list_ex (py_eq (PyInt k)) choices"
      then obtain a where a: "a \<in> set choices" "py_eq (PyInt k) a"
        by (auto simp: list_ex_iff)
      from a(2) have "py_num a = Some k" by (simp add: py_eq_int del: py_eq.simps)
      moreover from m have "py_num (missing_value c) = Some k"
        by (simp add: py_eq_int del: py_eq.simps)
      ultimately have "py_eq (missing_value c) a"
        using py_eq_numbers(2) [of a k "missing_value c"] by simp
      with nm a(1) show False by (auto simp: list_ex_iff)
    qed
    with tv show ?thesis by simp
  qed
  from tv disj
  have "term_value r f = Some (PyBool (\<exists>a\<in>set choices. \<exists>g. Classifier_eq c a = Inr g \<and>
                                            term_value r g = Some (PyBool True)))"
    by simp
  with fs all miss show ?thesis by blast
qed

lemma isin_matches_categorical:
  assumes isin: "Classifier_isin c choices0 = Inr f" and dt: "Classifier.dtype c = categorical_dtype"
    and v: "r_computed r (Classifier_term c) = Some v"
  shows "\<exists>choices. py_frozenset choices0 = Inr choices \<and>
           (\<forall>a\<in>set choices. \<exists>g. Classifier_eq c a = Inr g) \<and>
           term_value r f = Some (PyBool (\<exists>a\<in>set choices. \<exists>g. Classifier_eq c a = Inr g \<and>
                                            term_value r g = Some (PyBool True))) \<and>
           (py_eq v (missing_value c) \<longrightarrow> term_value r f = Some (PyBool False))"
proof -
  from isin dt obtain choices where fs: "py_frozenset choices0 = Inr choices"
    and nm: "\<not> list_ex (py_eq (missing_value c)) choices"
    and strs: "list_all isinstance_str choices"
    and f: "f = ArrayPredicate ''isin'' [PySet choices] [Classifier_term c]"
    by (rule isin_categorical)
  have each: "Classifier_eq c a = Inr (ArrayPredicate ''eq'' [a] [Classifier_term c]) \<and>
      term_value r (ArrayPredicate ''eq'' [a] [Classifier_term c])
        = Some (PyBool (\<not> py_eq v (missing_value c) \<and> py_eq v a))"
    if a: "a \<in> set choices" for a
  proof -
    from strs a obtain s where s: "a = PyStr s"
      using isinstance_str_ex by (auto simp: list_all_iff)
    from nm a have "\<not> py_eq (missing_value c) a"
      by (auto simp: list_ex_iff)
    with dt s have "Classifier_eq c a = Inr (ArrayPredicate ''eq'' [a] [Classifier_term c])"
      using eq_str_choice by simp
    moreover have "term_value r (ArrayPredicate ''eq'' [a] [Classifier_term c])
        = Some (PyBool (\<not> py_eq v (missing_value c) \<and> py_eq v a))"
      using v by (simp add: term_value_classifier apply_predicate_def missing_of_classifier
                       del: py_eq.simps)
    ultimately show ?thesis by simp
  qed
  have tv: "term_value r f =
      Some (PyBool (\<not> py_eq v (missing_value c) \<and> list_ex (py_eq v) choices))"
    unfolding f using v
    by (simp add: term_value_classifier apply_predicate_def missing_of_classifier
             del: py_eq.simps)
  have all: "\<forall>a\<in>set choices. \<exists>g. Classifier_eq c a = Inr g"
    using each by blast
  have disj: "(\<not> py_eq v (missing_value c) \<and> list_ex (py_eq v) choices) \<longleftrightarrow>
      (\<exists>a\<in>set choices. \<exists>g. Classifier_eq c a = Inr g \<and> term_value r g = Some (PyBool True))"
    (is "?l \<longleftrightarrow> ?r")
  proof
    assume ?l
    then obtain a where a: "a \<in> set choices" "py_eq v a" and m: "\<not> py_eq v (missing_value c)"
      by (auto simp: list_ex_iff)
    then have "term_value r (ArrayPredicate ''eq'' [a] [Classifier_term c]) = Some (PyBool True)"
      using each [OF a(1)] by (simp del: term_value.simps py_eq.simps)
    with each [OF a(1)] a(1) show ?r by blast
  next
    assume ?r
    then obtain a g where a: "a \<in> set choices" "Classifier_eq c a = Inr g"
      "term_value r g = Some (PyBool True)" by blast
    with each [OF a(1)] have "\<not> py_eq v (missing_value c) \<and> py_eq v a"
      by (simp del: term_value.simps py_eq.simps)
    with a(1) show ?l by (auto simp: list_ex_iff)
  qed
  have miss: "term_value r f = Some (PyBool False)" if "py_eq v (missing_value c)"
    using tv that by simp
  from tv disj
  have "term_value r f = Some (PyBool (\<exists>a\<in>set choices. \<exists>g. Classifier_eq c a = Inr g \<and>
                                            term_value r g = Some (PyBool True)))"
    by simp
  with fs all miss show ?thesis by blast
qed

text \<open>
  C9. When isin accepts a choice set (its elements are of the element type of the dtype
  and none equals the missing value), eq accepts every one of the choices, and on every
  row that holds a cell of the classifier's dtype the isin filter is true exactly when
  the eq filter of some choice is true; on a row whose cell is the missing value the
  isin filter is false.
\<close>

theorem isin_is_disjunction_of_eq:
  assumes "Classifier_isin c choices0 = Inr f"
    and "r_computed r (Classifier_term c) = Some v"
    and "cell_of_dtype (Classifier.dtype c) v"
  shows "\<exists>choices. py_frozenset choices0 = Inr choices \<and>
           (\<forall>a\<in>set choices. \<exists>g. Classifier_eq c a = Inr g) \<and>
           term_value r f = Some (PyBool (\<exists>a\<in>set choices. \<exists>g. Classifier_eq c a = Inr g \<and>
                                            term_value r g = Some (PyBool True))) \<and>
           (py_eq v (missing_value c) \<longrightarrow> term_value r f = Some (PyBool False))"
proof -
  from assms(1) consider "Classifier.dtype c = int64_dtype" | "Classifier.dtype c = categorical_dtype"
    using isin_dtype by blast
  then show ?thesis
  proof cases
    case 1
    with assms(3) obtain k where "v = PyInt k"
      by (cases v) auto
    with assms(1,2) 1 show ?thesis
      using isin_matches_int by blast
  next
    case 2
    with assms(1) show ?thesis
      using assms(2) by (rule isin_matches_categorical)
  qed
qed

theorem isin_is_disjunction_of_eq_witness:
  "term_value
     \<lparr>r_sid = 1, r_real_sid = ''A'', r_field = (\<lambda>f. PyNone),
      r_computed = (\<lambda>t. Some (PyStr ''energy''))\<rparr>
     (ArrayPredicate ''isin'' [PySet [PyStr ''tech'', PyStr ''energy'']]
        [ClassifierTerm categorical_dtype PyNone None]) = Some (PyBool True) \<and>
   Classifier_eq \<lparr>Classifier.dtype = categorical_dtype, missing_value = PyNone, Classifier.mask = None\<rparr>
     (PyStr ''energy'') =
     Inr (ArrayPredicate ''eq'' [PyStr ''energy''] [ClassifierTerm categorical_dtype PyNone None]) \<and>
   term_value
     \<lparr>r_sid = 1, r_real_sid = ''A'', r_field = (\<lambda>f. PyNone),
      r_computed = (\<lambda>t. Some (PyStr ''energy''))\<rparr>
     (ArrayPredicate ''eq'' [PyStr ''energy''] [ClassifierTerm categorical_dtype PyNone None])
     = Some (PyBool True) \<and>
   term_value
     \<lparr>r_sid = 1, r_real_sid = ''A'', r_field = (\<lambda>f. PyNone),
      r_computed = (\<lambda>t. Some (PyInt 5))\<rparr>
     (ArrayPredicate ''vectorized_is_element'' [PySet [PyInt 3, PyInt 5]]
        [ClassifierTerm int64_dtype (PyInt (- 1)) None]) = Some (PyBool True) \<and>
   term_value
     \<lparr>r_sid = 1, r_real_sid = ''A'', r_field = (\<lambda>f. PyNone),
      r_computed = (\<lambda>t. Some (PyInt 5))\<rparr>
     (NumExprFilter ''x_0 == 5'' [(''x_0'', ClassifierTerm int64_dtype (PyInt (- 1)) None)])
     = Some (PyBool True)"
  using
    isin_is_disjunction_of_eq [of
      "\<lparr>Classifier.dtype = categorical_dtype, missing_value = PyNone, Classifier.mask = None\<rparr>"
      "PyList [PyStr ''tech'', PyStr ''energy'']"
      "ArrayPredicate ''isin'' [PySet [PyStr ''tech'', PyStr ''energy'']]
        [ClassifierTerm categorical_dtype PyNone None]"
      "\<lparr>r_sid = 1, r_real_sid = ''A'', r_field = (\<lambda>f. PyNone),
        r_computed = (\<lambda>t. Some (PyStr ''energy''))\<rparr>"
      "PyStr ''energy''"]
    isin_is_disjunction_of_eq [of
      "\<lparr>Classifier.dtype = int64_dtype, missing_value = PyInt (- 1), Classifier.mask = None\<rparr>"
      "PyList [PyInt 3, PyInt 5]"
      "ArrayPredicate ''vectorized_is_element'' [PySet [PyInt 3, PyInt 5]]
        [ClassifierTerm int64_dtype (PyInt (- 1)) None]"
      "\<lparr>r_sid = 1, r_real_sid = ''A'', r_field = (\<lambda>f. PyNone),
        r_computed = (\<lambda>t. Some (PyInt 5))\<rparr>"
      "PyInt 5"]
  by (simp add: Classifier_eq_def Classifier_term_def apply_predicate_def parse_expr_def
        nat_of_digits_def digit_value_def numeral_eq_Suc)

subsection \<open>relabel\<close>

text \<open>
  C8, as the claim states it, fails: on a classifier of integer dtype relabel raises a
  TypeError, from the dtype restriction of the decorator and again from
  \<^verbatim>\<open>Relabel.__new__\<close>, not a NotImplementedError.
\<close>

theorem relabel_int_counterexample:
  "Classifier_relabel \<lparr>Classifier.dtype = int64_dtype, missing_value = PyInt (- 1), Classifier.mask = None\<rparr> id
     = Inl (Dtype_restricted ''relabel'' int64_dtype) \<and>
   exception_class (Dtype_restricted ''relabel'' int64_dtype) = TypeError \<and>
   Relabel_new \<lparr>Classifier.dtype = int64_dtype, missing_value = PyInt (- 1), Classifier.mask = None\<rparr> id
     = Inl (Relabel_dtype int64_dtype) \<and>
   exception_class (Relabel_dtype int64_dtype) = TypeError \<and>
   TypeError \<noteq> NotImplementedError"
  by (simp add: Classifier_relabel_def string_classifiers_only_def Relabel_new_def)

lemma count_list_distinct:
  "distinct xs \<Longrightarrow> count_list xs x = (if x \<in> set xs then 1 else 0)"
  by (induction xs) auto

lemma Relabel_compute_LabelArray:
  assumes "length m = length (codes la)"
  shows "Relabel_compute r (Label_array la # rest) m =
     Inr (\<lparr>categories = map (relabeler r) (categories la),
           codes = map2 (\<lambda>b c. if b then c else None) m (codes la)\<rparr>, categories la)"
  using assms by (simp add: Relabel_compute_def LabelArray_map_def)

lemma relabel_categorical:
  assumes "Classifier.dtype c = categorical_dtype"
  shows "Classifier_relabel c f =
     Inr \<lparr>inputs = [Classifier_term c], dtype = categorical_dtype, mask = Classifier.mask c, relabeler = f\<rparr>"
  using assms by (simp add: Classifier_relabel_def string_classifiers_only_def Relabel_new_def)

lemma LabelArray_ok_code:
  assumes "LabelArray_ok la" and "i < length (codes la)" and "codes la ! i = Some k"
  shows "k < length (categories la)"
proof -
  from assms(2) have "codes la ! i \<in> set (codes la)"
    by simp
  with assms(1,3) show ?thesis
    by (auto simp: LabelArray_ok_def list_all_iff split: option.splits)
qed

lemma Relabel_compute_cells:
  assumes ok: "LabelArray_ok la" and l: "length m = length (codes la)"
    and i: "i < length (codes la)"
    and res: "result = \<lparr>categories = map f (categories la),
                        codes = map2 (\<lambda>b c. if b then c else None) m (codes la)\<rparr>"
  shows "(codes la ! i = None \<longrightarrow> codes result ! i = None) \<and>
         (m ! i \<longrightarrow> codes result ! i = codes la ! i \<and>
                    label_at result i = map_option f (label_at la i)) \<and>
         (\<not> m ! i \<longrightarrow> codes result ! i = None)"
proof -
  have c: "codes result ! i = (if m ! i then codes la ! i else None)"
    using l i by (simp add: res)
  have "label_at result i = map_option f (label_at la i)" if "m ! i"
  proof (cases "codes la ! i")
    case None
    with c that show ?thesis by (simp add: label_at_def)
  next
    case (Some k)
    with ok i have "k < length (categories la)"
      by (simp add: LabelArray_ok_code)
    with c that Some show ?thesis
      by (simp add: label_at_def res)
  qed
  with c show ?thesis by simp
qed

text \<open>
  C8, amended. On a classifier of integer dtype relabel raises the dtype-mismatch
  TypeError; NotImplementedError is what \<^verbatim>\<open>Relabel._compute\<close> raises when its input
  array is not a LabelArray. On categorical dtype relabel returns a node, and computing
  it on a well-formed LabelArray calls the relabeler exactly once for every category of
  the table and for nothing else, however many cells there are; the new table is the
  image of the old one, a missing cell stays missing, a cell inside the mask keeps its
  code and so carries the relabelled category, and a cell outside the mask is missing.
\<close>

theorem relabel_dtypes:
  "(Classifier.dtype c = int64_dtype \<longrightarrow>
      Classifier_relabel c f = Inl (Dtype_restricted ''relabel'' int64_dtype) \<and>
      exception_class (Dtype_restricted ''relabel'' int64_dtype) = TypeError) \<and>
   Relabel_compute r (Int_array xs # rest) m = Inl Relabel_int_unsupported \<and>
   exception_class Relabel_int_unsupported = NotImplementedError \<and>
   (Classifier.dtype c = categorical_dtype \<and> LabelArray_ok la \<and> length m = length (codes la) \<longrightarrow>
      (\<exists>node result calls.
         Classifier_relabel c f = Inr node \<and>
         Relabel_compute node (Label_array la # rest) m = Inr (result, calls) \<and>
         (\<forall>x. count_list calls x = (if x \<in> set (categories la) then 1 else 0)) \<and>
         categories result = map f (categories la) \<and>
         length (codes result) = length (codes la) \<and>
         (\<forall>i < length (codes la).
            (codes la ! i = None \<longrightarrow> codes result ! i = None) \<and>
            (m ! i \<longrightarrow> codes result ! i = codes la ! i \<and>
                       label_at result i = map_option f (label_at la i)) \<and>
            (\<not> m ! i \<longrightarrow> codes result ! i = None))))"
proof -
  have int: "Classifier.dtype c = int64_dtype \<longrightarrow>
      Classifier_relabel c f = Inl (Dtype_restricted ''relabel'' int64_dtype) \<and>
      exception_class (Dtype_restricted ''relabel'' int64_dtype) = TypeError"
    by (simp add: Classifier_relabel_def string_classifiers_only_def)
  have comp: "Relabel_compute r (Int_array xs # rest) m = Inl Relabel_int_unsupported"
    by (simp add: Relabel_compute_def)
  have cat: "\<exists>node result calls.
         Classifier_relabel c f = Inr node \<and>
         Relabel_compute node (Label_array la # rest) m = Inr (result, calls) \<and>
         (\<forall>x. count_list calls x = (if x \<in> set (categories la) then 1 else 0)) \<and>
         categories result = map f (categories la) \<and>
         length (codes result) = length (codes la) \<and>
         (\<forall>i < length (codes la).
            (codes la ! i = None \<longrightarrow> codes result ! i = None) \<and>
            (m ! i \<longrightarrow> codes result ! i = codes la ! i \<and>
                       label_at result i = map_option f (label_at la i)) \<and>
            (\<not> m ! i \<longrightarrow> codes result ! i = None))"
    if d: "Classifier.dtype c = categorical_dtype" and ok: "LabelArray_ok la"
      and l: "length m = length (codes la)"
  proof -
    let ?node = "\<lparr>inputs = [Classifier_term c], dtype = categorical_dtype,
                  mask = Classifier.mask c, relabeler = f\<rparr>"
    let ?res = "\<lparr>categories = map f (categories la),
                 codes = map2 (\<lambda>b c. if b then c else None) m (codes la)\<rparr>"
    have 1: "Classifier_relabel c f = Inr ?node"
      using d by (rule relabel_categorical)
    have 2: "Relabel_compute ?node (Label_array la # rest) m = Inr (?res, categories la)"
      using Relabel_compute_LabelArray [OF l, of ?node rest] by simp
    have 3: "\<forall>x. count_list (categories la) x = (if x \<in> set (categories la) then 1 else 0)"
      using ok by (simp add: count_list_distinct LabelArray_ok_def)
    have 4: "categories ?res = map f (categories la)"
      by simp
    have 5: "length (codes ?res) = length (codes la)"
      using l by simp
    have 6: "\<forall>i < length (codes la).
            (codes la ! i = None \<longrightarrow> codes ?res ! i = None) \<and>
            (m ! i \<longrightarrow> codes ?res ! i = codes la ! i \<and>
                       label_at ?res i = map_option f (label_at la i)) \<and>
            (\<not> m ! i \<longrightarrow> codes ?res ! i = None)"
      using Relabel_compute_cells [OF ok l _ refl] by blast
    from 1 2 3 4 5 6 show ?thesis by blast
  qed
  from int comp cat show ?thesis by simp
qed

theorem relabel_dtypes_witness:
  "Classifier_relabel \<lparr>Classifier.dtype = int64_dtype, missing_value = PyInt (- 1), Classifier.mask = None\<rparr> id
     = Inl (Dtype_restricted ''relabel'' int64_dtype) \<and>
   Relabel_compute
     \<lparr>inputs = [ClassifierTerm categorical_dtype PyNone None], dtype = categorical_dtype,
      mask = None, relabeler = rev\<rparr>
     [Label_array \<lparr>categories = [''ab'', ''cd''], codes = [Some 0, None, Some 1, Some 0]\<rparr>]
     [True, True, True, False]
   = Inr (\<lparr>categories = [''ba'', ''dc''], codes = [Some 0, None, Some 1, None]\<rparr>, [''ab'', ''cd''])"
  using
    relabel_dtypes [of "\<lparr>Classifier.dtype = int64_dtype, missing_value = PyInt (- 1), Classifier.mask = None\<rparr>" id
       "\<lparr>inputs = [], dtype = categorical_dtype, mask = None, relabeler = id\<rparr>" "[]" "[]" "[]" "\<lparr>categories = [], codes = []\<rparr>"]
    relabel_dtypes [of "\<lparr>Classifier.dtype = categorical_dtype, missing_value = PyNone, Classifier.mask = None\<rparr>" rev
       "\<lparr>inputs = [], dtype = categorical_dtype, mask = None, relabeler = id\<rparr>" "[]" "[]" "[True, True, True, False]"
       "\<lparr>categories = [''ab'', ''cd''], codes = [Some 0, None, Some 1, Some 0]\<rparr>"]
  by (simp add: Relabel_compute_def LabelArray_map_def)

end
